theory Spec2Isabelle
  imports Complex_Main "HOL-Library.Word"
begin

section \<open>The iframe bridge of the splat editor (src/iframe-integration.ts)\<close>

text \<open>
  The file wires two DOM buttons and a message listener to the hosting page. Everything
  it calls lives elsewhere: the event bus (\<^verbatim>\<open>events.invoke\<close>), the serializer
  (\<^verbatim>\<open>serializePlyCompressed\<close>), the in-memory file system and the browser's canvas.
  Those collaborators are parameters of the model (the record \<open>host\<close> below); the code of
  this file is translated function by function. Effects are explicit: every function takes
  the world and returns the world it leaves, and every call of a collaborator, every
  \<^verbatim>\<open>postMessage\<close>, every console line and every DOM append is an event of the trace.

  A call of a collaborator is taken to settle: it returns a value or throws (an awaited
  promise resolves or rejects). A collaborator changes its own state only: it does not
  touch the two buttons and posts nothing to the parent. One handler is run from its start
  to its end; handlers that overlap in time are not modelled. \<^verbatim>\<open>postMessage\<close> and the
  console do not throw.

  A string is a list of characters. The code compares characters with ASCII characters
  only, so a character stands for one code unit of the JavaScript string.
\<close>

subsection \<open>Values\<close>

type_synonym bytes = "8 word list"

text \<open>
  A thrown JavaScript value, as far as this file looks at it: the handlers compute
  \<^verbatim>\<open>error?.message || String(error)\<close>, so a thrown value is its \<^verbatim>\<open>message\<close> property
  (\<open>None\<close> when there is none) and what \<^verbatim>\<open>String\<close> makes of it.
\<close>

datatype thrown = Thrown (message: "string option") (as_string: string)

text \<open>\<^verbatim>\<open>new Error(m)\<close>.\<close>

definition new_Error :: "string \<Rightarrow> thrown" where
  "new_Error m = Thrown (Some m) (if m = [] then ''Error'' else ''Error: '' @ m)"

text \<open>\<^verbatim>\<open>error?.message || String(error)\<close>: the empty string is falsy.\<close>

definition error_text :: "thrown \<Rightarrow> string" where
  "error_text e =
     (case message e of
        None \<Rightarrow> as_string e
      | Some m \<Rightarrow> if m = [] then as_string e else m)"

datatype 'a outcome = Returns 'a | Throws thrown

datatype vec3 = Vec3 (vx: real) (vy: real) (vz: real)

text \<open>What \<^verbatim>\<open>events.invoke('camera.getPose')\<close> hands back when it is truthy.\<close>

record host_pose =
  pose_position :: vec3
  pose_target :: vec3

text \<open>The pose this file builds from it (lines 49-53).\<close>

record camera_pose =
  position :: "real list"
  target :: "real list"
  fov :: real

text \<open>
  A splat of the scene; this file reads its \<^verbatim>\<open>filename\<close> only. \<open>None\<close> is a
  \<^verbatim>\<open>null\<close> or \<^verbatim>\<open>undefined\<close> filename.
\<close>

datatype splat = Splat (splat_filename: "string option") (splat_data: bytes)

text \<open>
  A file descriptor of an import message; this file reads its \<^verbatim>\<open>filename\<close> (for the
  console) and passes the whole descriptor on. The elements of a \<^verbatim>\<open>files\<close> list are
  descriptor objects, so reading \<^verbatim>\<open>fileData.filename\<close> does not throw.
\<close>

datatype file_descriptor = FileDescriptor (fd_filename: "string option") (fd_data: bytes)

text \<open>The settings object of lines 117-121.\<close>

record serialize_settings =
  maxSHBands :: nat
  minOpacity :: rat
  removeInvalid :: bool

definition serializeSettings :: serialize_settings where
  "serializeSettings = \<lparr>maxSHBands = 3, minOpacity = 1 / 255, removeInvalid = True\<rparr>"

text \<open>The value \<^verbatim>\<open>exportPly\<close> returns when it is not \<^verbatim>\<open>null\<close>.\<close>

record ply_data =
  ply_filename :: string
  ply_bytes :: bytes

text \<open>The payload of a \<^verbatim>\<open>splat-editor-submit\<close> message (lines 201-206).\<close>

record export_bundle =
  thumbnail :: "bytes option"
  plyFile :: bytes
  filename :: string
  cameraPose :: "camera_pose option"

text \<open>The messages this file posts to the parent window, all with target origin \<^verbatim>\<open>*\<close>.\<close>

datatype message =
    EditorReady
  | SupersplatReady
  | EditorCancel
  | EditorSubmit export_bundle
  | EditorError string
  | ImportError string

fun message_type :: "message \<Rightarrow> string" where
  "message_type EditorReady = ''splat-editor-ready''"
| "message_type SupersplatReady = ''supersplat:ready''"
| "message_type EditorCancel = ''splat-editor-cancel''"
| "message_type (EditorSubmit b) = ''splat-editor-submit''"
| "message_type (EditorError s) = ''splat-editor-error''"
| "message_type (ImportError s) = ''supersplat:import:error''"

subsection \<open>Filename derivation (lines 133-137)\<close>

text \<open>
  \<^verbatim>\<open>s.includes(sub)\<close>: \<open>sub\<close> occurs in \<open>s\<close> at some index. \<open>starts_with\<close> is the test
  at one index.
\<close>

definition starts_with :: "string \<Rightarrow> string \<Rightarrow> bool" where
  "starts_with s sub = (take (length sub) s = sub)"

fun includes_str :: "string \<Rightarrow> string \<Rightarrow> bool" where
  "includes_str [] sub = (sub = [])"
| "includes_str (c # cs) sub = (starts_with (c # cs) sub \<or> includes_str cs sub)"

text \<open>
  The regular expression \<^verbatim>\<open>/\.ply$/i\<close> at one index: a dot, then p, l, y in either
  case, then the end of the input (no \<^verbatim>\<open>m\<close> flag, so \<^verbatim>\<open>$\<close> is the end of the string
  only; no \<^verbatim>\<open>u\<close> flag, so only the ASCII letters fold onto p, l and y).
\<close>

fun matches_ply_at_end :: "string \<Rightarrow> bool" where
  "matches_ply_at_end [d, p, l, y] =
     (d = CHR ''.'' \<and> (p = CHR ''p'' \<or> p = CHR ''P'') \<and> (l = CHR ''l'' \<or> l = CHR ''L'')
      \<and> (y = CHR ''y'' \<or> y = CHR ''Y''))"
| "matches_ply_at_end s = False"

text \<open>
  \<^verbatim>\<open>s.replace(/\.ply$/i, '.compressed.ply')\<close>: the leftmost match is replaced (there is no
  \<^verbatim>\<open>g\<close> flag), the text before it is kept; without a match the string is returned as it
  is. The replacement holds no \<^verbatim>\<open>$\<close>, so it is taken literally.
\<close>

fun replace_ply :: "string \<Rightarrow> string" where
  "replace_ply [] = []"
| "replace_ply (c # cs) =
     (if matches_ply_at_end (c # cs) then ''.compressed.ply'' else c # replace_ply cs)"

text \<open>Lines 135-137.\<close>

definition normalize_extension :: "string \<Rightarrow> string" where
  "normalize_extension name =
     (if \<not> includes_str name ''.compressed.ply'' then replace_ply name else name)"

text \<open>
  Lines 134-137, from the first splat's \<^verbatim>\<open>filename\<close>: \<^verbatim>\<open>filename || 'edited.ply'\<close>
  takes the default for \<^verbatim>\<open>null\<close>, \<^verbatim>\<open>undefined\<close> and the empty string.
\<close>

definition derive_filename :: "string option \<Rightarrow> string" where
  "derive_filename stored =
     normalize_extension
       (case stored of
          None \<Rightarrow> ''edited.ply''
        | Some n \<Rightarrow> if n = [] then ''edited.ply'' else n)"

subsection \<open>Embedding detector (lines 10-16)\<close>

text \<open>
  The window as \<^verbatim>\<open>isInIframe\<close> reads it: \<^verbatim>\<open>window.self\<close>, and \<^verbatim>\<open>window.top\<close>, whose
  read may throw. The function reads these two properties and calls nothing, so it is a
  function of the window alone.
\<close>

record 'w window =
  window_self :: 'w
  window_top :: "'w outcome"

definition isInIframe :: "'w window \<Rightarrow> bool" where
  "isInIframe win =
     (case window_top win of
        Returns t \<Rightarrow> window_self win \<noteq> t
      | Throws e \<Rightarrow> True)"

subsection \<open>The world: collaborators, trace, buttons\<close>

text \<open>The commands this file sends over the event bus with \<^verbatim>\<open>events.invoke\<close>.\<close>

datatype api =
    CameraGetPose
  | CameraFov
  | RenderOffscreen nat nat
  | SceneSplats
  | Import "file_descriptor list"

text \<open>What a run leaves behind, in the order it happens.\<close>

datatype event =
    Invoke api
  | Serialize "splat list" serialize_settings
  | CanvasGetContext
  | CanvasPutImageData bytes
  | CanvasToBlob
  | PostMessage message
  | ConsoleLog string
  | ConsoleError string
  | AppendChild string
  | AddEventListener string string

text \<open>
  The collaborators, none of them in this file. \<open>'h\<close> is whatever state they keep (the
  scene, the camera, the renderer, the browser); each call may change it. A falsy return
  value of the bus is \<open>None\<close>.
  \<^item> \<open>invoke_\<close>...: the results of \<^verbatim>\<open>events.invoke\<close> for the five commands;
  \<^item> \<open>serializePlyCompressed\<close>: the serializer of \<^verbatim>\<open>./splat-serialize\<close> run on a fresh
    \<^verbatim>\<open>MemoryFileSystem\<close>; it returns the \<^verbatim>\<open>results\<close> map of that file system;
  \<^item> \<open>canvas_getContext\<close>: whether \<^verbatim>\<open>getContext('2d')\<close> of a new 512 x 512 canvas gives a
    context; \<open>canvas_putImageData\<close>: \<^verbatim>\<open>createImageData\<close>, \<^verbatim>\<open>data.set(pixels)\<close> and
    \<^verbatim>\<open>putImageData\<close>; \<open>canvas_toBlob\<close>: the value \<^verbatim>\<open>toBlob\<close> hands to its callback
    (\<open>None\<close> is \<^verbatim>\<open>null\<close>).
\<close>

record 'h host =
  invoke_camera_getPose :: "'h \<Rightarrow> host_pose option outcome \<times> 'h"
  invoke_camera_fov :: "'h \<Rightarrow> real outcome \<times> 'h"
  invoke_render_offscreen :: "nat \<Rightarrow> nat \<Rightarrow> 'h \<Rightarrow> bytes option outcome \<times> 'h"
  invoke_scene_splats :: "'h \<Rightarrow> splat list option outcome \<times> 'h"
  invoke_import :: "file_descriptor list \<Rightarrow> 'h \<Rightarrow> unit outcome \<times> 'h"
  serializePlyCompressed ::
    "splat list \<Rightarrow> serialize_settings \<Rightarrow> 'h \<Rightarrow> (string \<rightharpoonup> bytes) outcome \<times> 'h"
  canvas_getContext :: "'h \<Rightarrow> bool outcome \<times> 'h"
  canvas_putImageData :: "bytes \<Rightarrow> 'h \<Rightarrow> unit outcome \<times> 'h"
  canvas_toBlob :: "'h \<Rightarrow> bytes option outcome \<times> 'h"

record button =
  button_id :: string
  textContent :: string
  className :: string
  disabled :: bool

record 'h world =
  host_state :: 'h
  trace :: "event list"
  submit :: button
  cancel :: button

definition emit :: "event \<Rightarrow> 'h world \<Rightarrow> 'h world" where
  "emit ev w = w\<lparr>trace := trace w @ [ev]\<rparr>"

definition console_log :: "string \<Rightarrow> 'h world \<Rightarrow> 'h world" where
  "console_log s = emit (ConsoleLog s)"

definition console_error :: "string \<Rightarrow> 'h world \<Rightarrow> 'h world" where
  "console_error s = emit (ConsoleError s)"

text \<open>\<^verbatim>\<open>window.parent.postMessage(m, '*')\<close>.\<close>

definition postMessage :: "message \<Rightarrow> 'h world \<Rightarrow> 'h world" where
  "postMessage m = emit (PostMessage m)"

text \<open>A call of a collaborator: the event is recorded, the collaborator's state moves on.\<close>

definition call_host :: "event \<Rightarrow> ('h \<Rightarrow> 'a \<times> 'h) \<Rightarrow> 'h world \<Rightarrow> 'a \<times> 'h world" where
  "call_host ev f w =
     (case f (host_state w) of
        (r, h') \<Rightarrow> (r, emit ev (w\<lparr>host_state := h'\<rparr>)))"

subsection \<open>createIframeControls (lines 21-36)\<close>

definition createIframeControls :: "'h world \<Rightarrow> 'h world" where
  "createIframeControls w =
     (let submitButton = \<lparr>button_id = ''submit-splat-button'', textContent = ''Submit'',
                           className = ''iframe-control-button'', disabled = False\<rparr>;
          cancelButton = \<lparr>button_id = ''cancel-splat-button'', textContent = ''Cancel'',
                           className = ''iframe-control-button'', disabled = False\<rparr>;
          w1 = w\<lparr>submit := submitButton, cancel := cancelButton\<rparr>;
          w2 = emit (AppendChild (button_id cancelButton)) w1
      in emit (AppendChild (button_id submitButton)) w2)"

subsection \<open>getCameraPose (lines 41-58)\<close>

text \<open>
  The \<^verbatim>\<open>try\<close> block covers both calls of the bus: a throw of either gives \<^verbatim>\<open>null\<close>. The
  array literals are built before \<^verbatim>\<open>camera.fov\<close> is asked.
\<close>

definition getCameraPose :: "'h host \<Rightarrow> 'h world \<Rightarrow> camera_pose option \<times> 'h world" where
  "getCameraPose H w =
     (case call_host (Invoke CameraGetPose) (invoke_camera_getPose H) w of
        (Throws e, w1) \<Rightarrow>
          (None, console_error ''[IframeIntegration] Error getting camera pose:'' w1)
      | (Returns None, w1) \<Rightarrow>
          (None, console_error ''[IframeIntegration] Failed to get camera pose'' w1)
      | (Returns (Some pose), w1) \<Rightarrow>
          (case call_host (Invoke CameraFov) (invoke_camera_fov H) w1 of
             (Throws e, w2) \<Rightarrow>
               (None, console_error ''[IframeIntegration] Error getting camera pose:'' w2)
           | (Returns f, w2) \<Rightarrow>
               (Some \<lparr>position = [vx (pose_position pose), vy (pose_position pose),
                                  vz (pose_position pose)],
                      target = [vx (pose_target pose), vy (pose_target pose),
                                vz (pose_target pose)],
                      fov = f\<rparr>, w2)))"

subsection \<open>captureThumbnail (lines 63-100)\<close>

text \<open>
  The promise of lines 77-95. A throw inside the executor rejects the promise; without a 2d
  context it resolves to \<^verbatim>\<open>null\<close>; otherwise it resolves to what \<^verbatim>\<open>toBlob\<close> hands over.
\<close>

definition canvasPromise :: "'h host \<Rightarrow> bytes \<Rightarrow> 'h world \<Rightarrow> bytes option outcome \<times> 'h world" where
  "canvasPromise H pixels w =
     (case call_host CanvasGetContext (canvas_getContext H) w of
        (Throws e, w1) \<Rightarrow> (Throws e, w1)
      | (Returns ctx, w1) \<Rightarrow>
          if \<not> ctx then (Returns None, w1)
          else
            (case call_host (CanvasPutImageData pixels) (canvas_putImageData H pixels) w1 of
               (Throws e, w2) \<Rightarrow> (Throws e, w2)
             | (Returns u, w2) \<Rightarrow> call_host CanvasToBlob (canvas_toBlob H) w2))"

text \<open>
  The \<^verbatim>\<open>try\<close> block awaits \<^verbatim>\<open>render.offscreen\<close>, so its rejection is caught and gives
  \<^verbatim>\<open>null\<close>. The promise of lines 77-95 is returned without \<^verbatim>\<open>await\<close>: when it
  rejects, the function's own promise rejects and the \<^verbatim>\<open>catch\<close> block does not run.
\<close>

definition captureThumbnail :: "'h host \<Rightarrow> 'h world \<Rightarrow> bytes option outcome \<times> 'h world" where
  "captureThumbnail H w =
     (let width = 512; height = 512 in
      case call_host (Invoke (RenderOffscreen width height))
             (invoke_render_offscreen H width height) w of
        (Throws e, w1) \<Rightarrow>
          (Returns None, console_error ''[IframeIntegration] Error capturing thumbnail:'' w1)
      | (Returns None, w1) \<Rightarrow>
          (Returns None,
           console_error
             ''[IframeIntegration] Failed to capture pixels from render.offscreen()'' w1)
      | (Returns (Some pixels), w1) \<Rightarrow> canvasPromise H pixels w1)"

subsection \<open>exportPly (lines 105-147)\<close>

text \<open>
  Everything is inside one \<^verbatim>\<open>try\<close> block: a throw of the bus or of the serializer gives
  \<^verbatim>\<open>null\<close>. The bytes are copied into a new buffer of the same length.
\<close>

definition exportPly :: "'h host \<Rightarrow> 'h world \<Rightarrow> ply_data option \<times> 'h world" where
  "exportPly H w =
     (case call_host (Invoke SceneSplats) (invoke_scene_splats H) w of
        (Throws e, w1) \<Rightarrow>
          (None, console_error ''[IframeIntegration] Error exporting PLY:'' w1)
      | (Returns None, w1) \<Rightarrow>
          (None, console_error ''[IframeIntegration] No splats found in scene'' w1)
      | (Returns (Some []), w1) \<Rightarrow>
          (None, console_error ''[IframeIntegration] No splats found in scene'' w1)
      | (Returns (Some (first # others)), w1) \<Rightarrow>
          (case call_host (Serialize (first # others) serializeSettings)
                  (serializePlyCompressed H (first # others) serializeSettings) w1 of
             (Throws e, w2) \<Rightarrow>
               (None, console_error ''[IframeIntegration] Error exporting PLY:'' w2)
           | (Returns results, w2) \<Rightarrow>
               (case results ''output.compressed.ply'' of
                  None \<Rightarrow>
                    (None,
                     console_error ''[IframeIntegration] No PLY data written to memory'' w2)
                | Some data \<Rightarrow>
                    (Some \<lparr>ply_filename = derive_filename (splat_filename first),
                           ply_bytes = data\<rparr>, w2))))"

subsection \<open>performExport (lines 171-210)\<close>

text \<open>The options object; \<open>None\<close> is a property left out, for which the default applies.\<close>

record export_options =
  includeThumbnail :: "bool option"
  includeCameraPose :: "bool option"

text \<open>Lines 175-181.\<close>

definition poseStep :: "'h host \<Rightarrow> bool \<Rightarrow> 'h world \<Rightarrow> camera_pose option outcome \<times> 'h world" where
  "poseStep H requested w =
     (if requested then
        (case getCameraPose H w of
           (None, w1) \<Rightarrow> (Throws (new_Error ''Failed to capture camera pose''), w1)
         | (Some pose, w1) \<Rightarrow> (Returns (Some pose), w1))
      else (Returns None, w))"

text \<open>Lines 184-190.\<close>

definition thumbnailStep :: "'h host \<Rightarrow> bool \<Rightarrow> 'h world \<Rightarrow> bytes option outcome \<times> 'h world" where
  "thumbnailStep H requested w =
     (if requested then
        (case captureThumbnail H w of
           (Throws e, w1) \<Rightarrow> (Throws e, w1)
         | (Returns None, w1) \<Rightarrow> (Throws (new_Error ''Failed to capture thumbnail''), w1)
         | (Returns (Some blob), w1) \<Rightarrow> (Returns (Some blob), w1))
      else (Returns None, w))"

text \<open>Lines 193-209.\<close>

definition plyStep ::
  "'h host \<Rightarrow> camera_pose option \<Rightarrow> bytes option \<Rightarrow> 'h world \<Rightarrow> unit outcome \<times> 'h world" where
  "plyStep H pose thumb w =
     (case exportPly H w of
        (None, w1) \<Rightarrow> (Throws (new_Error ''Failed to export PLY''), w1)
      | (Some plyData, w1) \<Rightarrow>
          (Returns (),
           console_log ''[IframeIntegration] Successfully sent export to parent''
             (postMessage
                (EditorSubmit \<lparr>thumbnail = thumb, plyFile = ply_bytes plyData,
                                filename = ply_filename plyData, cameraPose = pose\<rparr>) w1)))"

definition performExport :: "'h host \<Rightarrow> export_options \<Rightarrow> 'h world \<Rightarrow> unit outcome \<times> 'h world" where
  "performExport H options w =
     (let wantThumbnail = (case includeThumbnail options of None \<Rightarrow> True | Some b \<Rightarrow> b);
          wantCameraPose = (case includeCameraPose options of None \<Rightarrow> True | Some b \<Rightarrow> b)
      in case poseStep H wantCameraPose w of
           (Throws e, w1) \<Rightarrow> (Throws e, w1)
         | (Returns pose, w1) \<Rightarrow>
             (case thumbnailStep H wantThumbnail w1 of
                (Throws e, w2) \<Rightarrow> (Throws e, w2)
              | (Returns thumb, w2) \<Rightarrow> plyStep H pose thumb w2))"

text \<open>
  The world in which line 193 calls \<^verbatim>\<open>exportPly\<close>, and so the state of the collaborators
  at which \<^verbatim>\<open>scene.splats\<close> is asked in this call: the world the pose and thumbnail
  steps leave when both return. It is \<open>None\<close> when one of them throws; line 193 is not
  reached then.
\<close>

definition world_at_exportPly :: "'h host \<Rightarrow> export_options \<Rightarrow> 'h world \<Rightarrow> 'h world option" where
  "world_at_exportPly H options w =
     (let wantThumbnail = (case includeThumbnail options of None \<Rightarrow> True | Some b \<Rightarrow> b);
          wantCameraPose = (case includeCameraPose options of None \<Rightarrow> True | Some b \<Rightarrow> b)
      in case poseStep H wantCameraPose w of
           (Throws e, w1) \<Rightarrow> None
         | (Returns pose, w1) \<Rightarrow>
             (case thumbnailStep H wantThumbnail w1 of
                (Throws e, w2) \<Rightarrow> None
              | (Returns thumb, w2) \<Rightarrow> Some w2))"

subsection \<open>The handlers (lines 163-166, 213-233, 236-270)\<close>

definition cancel_click :: "'h world \<Rightarrow> 'h world" where
  "cancel_click w = postMessage EditorCancel (console_log ''[IframeIntegration] Cancel clicked'' w)"

text \<open>Lines 214-218: what the Submit handler does before it starts the export.\<close>

definition submit_click_entry :: "'h world \<Rightarrow> 'h world" where
  "submit_click_entry w =
     (let w0 = console_log
                 ''[IframeIntegration] Submit clicked, capturing thumbnail and exporting PLY'' w;
          w1 = w0\<lparr>submit := (submit w0)\<lparr>disabled := True\<rparr>\<rparr>;
          w2 = w1\<lparr>cancel := (cancel w1)\<lparr>disabled := True\<rparr>\<rparr>
      in w2\<lparr>submit := (submit w2)\<lparr>textContent := ''Processing...''\<rparr>\<rparr>)"

text \<open>Lines 222-232: the \<^verbatim>\<open>catch\<close> block of the Submit handler.\<close>

definition submit_click_catch :: "thrown \<Rightarrow> 'h world \<Rightarrow> 'h world" where
  "submit_click_catch e w =
     (let w0 = console_error ''[IframeIntegration] Error during submit:'' w;
          w1 = postMessage (EditorError (error_text e)) w0;
          w2 = w1\<lparr>submit := (submit w1)\<lparr>disabled := False\<rparr>\<rparr>;
          w3 = w2\<lparr>cancel := (cancel w2)\<lparr>disabled := False\<rparr>\<rparr>
      in w3\<lparr>submit := (submit w3)\<lparr>textContent := ''Submit''\<rparr>\<rparr>)"

definition submit_click :: "'h host \<Rightarrow> 'h world \<Rightarrow> 'h world" where
  "submit_click H w =
     (case performExport H \<lparr>includeThumbnail = Some True, includeCameraPose = Some True\<rparr>
             (submit_click_entry w) of
        (Returns u, w1) \<Rightarrow> w1
      | (Throws e, w1) \<Rightarrow> submit_click_catch e w1)"

text \<open>
  The data of an inbound message, as the listener reads it: \<^verbatim>\<open>e.data?.type\<close> (\<open>None\<close>
  when the data is nullish or has no string there) and \<^verbatim>\<open>e.data.files\<close>.
\<close>

datatype files_field = FilesUndefined | FilesNull | FilesArray "file_descriptor list"

record inbound =
  data_type :: "string option"
  data_files :: files_field

text \<open>
  The \<^verbatim>\<open>for\<close> loop of lines 242-253. The \<^verbatim>\<open>try\<close> block is inside the loop body, so a
  rejected import is caught there and the loop goes on with the next descriptor.
\<close>

fun import_loop :: "'h host \<Rightarrow> file_descriptor list \<Rightarrow> 'h world \<Rightarrow> 'h world" where
  "import_loop H [] w = w"
| "import_loop H (fileData # rest) w =
     (case call_host (Invoke (Import [fileData])) (invoke_import H [fileData]) w of
        (Returns u, w1) \<Rightarrow>
          import_loop H rest (console_log ''[IframeIntegration] Successfully imported:'' w1)
      | (Throws e, w1) \<Rightarrow>
          import_loop H rest
            (postMessage (ImportError (error_text e))
               (console_error ''[IframeIntegration] Failed to import:'' w1)))"

definition message_listener :: "'h host \<Rightarrow> inbound \<Rightarrow> 'h world \<Rightarrow> 'h world" where
  "message_listener H e w =
     (if data_type e = Some ''supersplat:import'' then
        (let w0 = console_log ''[IframeIntegration] Import message received:'' w in
         case data_files e of
           FilesUndefined \<Rightarrow> w0
         | FilesNull \<Rightarrow> w0
         | FilesArray files \<Rightarrow> if length files > 0 then import_loop H files w0 else w0)
      else if data_type e = Some ''supersplat:auto-export'' then
        (let w0 = console_log ''[IframeIntegration] Auto-export message received'' w in
         case performExport H \<lparr>includeThumbnail = Some False, includeCameraPose = Some False\<rparr>
                w0 of
           (Returns u, w1) \<Rightarrow> w1
         | (Throws err, w1) \<Rightarrow>
             postMessage (EditorError (error_text err))
               (console_error ''[IframeIntegration] Error during auto-export:'' w1))
      else w)"

subsection \<open>initIframeIntegration (lines 152-276)\<close>

definition initIframeIntegration :: "'w window \<Rightarrow> 'h world \<Rightarrow> 'h world" where
  "initIframeIntegration win w =
     (if \<not> isInIframe win then
        console_log ''[IframeIntegration] Not in iframe, skipping integration'' w
      else
        (let w0 = console_log ''[IframeIntegration] Detected iframe mode, initializing controls'' w;
             w1 = createIframeControls w0;
             w2 = emit (AddEventListener ''cancel-splat-button'' ''click'') w1;
             w3 = emit (AddEventListener ''submit-splat-button'' ''click'') w2;
             w4 = emit (AddEventListener ''window'' ''message'') w3;
             w5 = postMessage EditorReady w4;
             w6 = postMessage SupersplatReady w5
         in console_log ''[IframeIntegration] Sent ready messages to parent'' w6))"

subsection \<open>Reading a trace\<close>

fun posted :: "event list \<Rightarrow> message list" where
  "posted [] = []"
| "posted (PostMessage m # evs) = m # posted evs"
| "posted (ev # evs) = posted evs"

fun invoked :: "event list \<Rightarrow> api list" where
  "invoked [] = []"
| "invoked (Invoke a # evs) = a # invoked evs"
| "invoked (ev # evs) = invoked evs"

text \<open>
  \<open>grows w evs w'\<close>: from \<open>w\<close> to \<open>w'\<close> the trace grew by exactly \<open>evs\<close> and neither
  button changed.
\<close>

definition grows :: "'h world \<Rightarrow> event list \<Rightarrow> 'h world \<Rightarrow> bool" where
  "grows w evs w' \<longleftrightarrow> trace w' = trace w @ evs \<and> submit w' = submit w \<and> cancel w' = cancel w"

text \<open>
  The phase of the export an event belongs to: 0 for the camera pose, 1 for the thumbnail
  (offscreen render and canvas), 2 for the serialization (reading the splats and
  serializing them), 3 for the message to the parent. Console lines and the events of the
  other handlers have none.
\<close>

fun export_phase :: "event \<Rightarrow> nat option" where
  "export_phase (Invoke CameraGetPose) = Some 0"
| "export_phase (Invoke CameraFov) = Some 0"
| "export_phase (Invoke (RenderOffscreen width height)) = Some 1"
| "export_phase CanvasGetContext = Some 1"
| "export_phase (CanvasPutImageData pixels) = Some 1"
| "export_phase CanvasToBlob = Some 1"
| "export_phase (Invoke SceneSplats) = Some 2"
| "export_phase (Serialize splats settings) = Some 2"
| "export_phase (PostMessage m) = Some 3"
| "export_phase ev = None"

fun phases :: "event list \<Rightarrow> nat list" where
  "phases [] = []"
| "phases (ev # evs) = (case export_phase ev of None \<Rightarrow> phases evs | Some k \<Rightarrow> k # phases evs)"

text \<open>
  What the import pipeline answers when it is fed the descriptors one by one, each in a
  list of its own, from the state \<open>h\<close>; and the thrown values among a list of outcomes.
\<close>

fun import_outcomes :: "'h host \<Rightarrow> file_descriptor list \<Rightarrow> 'h \<Rightarrow> unit outcome list" where
  "import_outcomes H [] h = []"
| "import_outcomes H (fileData # rest) h =
     (case invoke_import H [fileData] h of (r, h') \<Rightarrow> r # import_outcomes H rest h')"

fun failures :: "'a outcome list \<Rightarrow> thrown list" where
  "failures [] = []"
| "failures (Returns v # rs) = failures rs"
| "failures (Throws e # rs) = e # failures rs"

subsection \<open>Sample collaborators\<close>

text \<open>
  A host whose state counts the calls made so far. Its scene holds one splat named
  \<^verbatim>\<open>model.ply\<close>; every call succeeds, except the second call overall when it is an import.
\<close>

definition sample_host :: "nat host" where
  "sample_host =
     \<lparr>invoke_camera_getPose =
        (\<lambda>h. (Returns (Some \<lparr>pose_position = Vec3 0 1 2, pose_target = Vec3 0 0 0\<rparr>), Suc h)),
      invoke_camera_fov = (\<lambda>h. (Returns 60, Suc h)),
      invoke_render_offscreen = (\<lambda>width height h. (Returns (Some [0, 0, 0, 255]), Suc h)),
      invoke_scene_splats = (\<lambda>h. (Returns (Some [Splat (Some ''model.ply'') [1, 2, 3]]), Suc h)),
      invoke_import =
        (\<lambda>files h. (if h = 1 then Throws (new_Error ''bad file'') else Returns (), Suc h)),
      serializePlyCompressed =
        (\<lambda>splats settings h.
           (Returns [''output.compressed.ply'' \<mapsto> concat (map splat_data splats)], Suc h)),
      canvas_getContext = (\<lambda>h. (Returns True, Suc h)),
      canvas_putImageData = (\<lambda>pixels h. (Returns (), Suc h)),
      canvas_toBlob = (\<lambda>h. (Returns (Some [137, 80, 78, 71]), Suc h))\<rparr>"

text \<open>The same host with an empty scene, and without a camera pose.\<close>

definition empty_scene_host :: "nat host" where
  "empty_scene_host = sample_host\<lparr>invoke_scene_splats := (\<lambda>h. (Returns (Some []), Suc h))\<rparr>"

definition no_pose_host :: "nat host" where
  "no_pose_host = sample_host\<lparr>invoke_camera_getPose := (\<lambda>h. (Returns None, Suc h))\<rparr>"

text \<open>
  A host whose state is its scene: \<^verbatim>\<open>scene.splats\<close> answers with the state, and an import
  adds one splat per descriptor. Camera, renderer, serializer and canvas always succeed.
\<close>

definition scene_host :: "splat list host" where
  "scene_host =
     \<lparr>invoke_camera_getPose =
        (\<lambda>h. (Returns (Some \<lparr>pose_position = Vec3 0 1 2, pose_target = Vec3 0 0 0\<rparr>), h)),
      invoke_camera_fov = (\<lambda>h. (Returns 60, h)),
      invoke_render_offscreen = (\<lambda>width height h. (Returns (Some [0, 0, 0, 255]), h)),
      invoke_scene_splats = (\<lambda>h. (Returns (Some h), h)),
      invoke_import =
        (\<lambda>files h.
           (Returns (), h @ map (\<lambda>fileData. Splat (fd_filename fileData) (fd_data fileData)) files)),
      serializePlyCompressed =
        (\<lambda>splats settings h.
           (Returns [''output.compressed.ply'' \<mapsto> concat (map splat_data splats)], h)),
      canvas_getContext = (\<lambda>h. (Returns True, h)),
      canvas_putImageData = (\<lambda>pixels h. (Returns (), h)),
      canvas_toBlob = (\<lambda>h. (Returns (Some [137, 80, 78, 71]), h))\<rparr>"

text \<open>The world right after \<^verbatim>\<open>createIframeControls\<close> over the scene \<open>scene\<close>.\<close>

definition scene_world :: "splat list \<Rightarrow> splat list world" where
  "scene_world scene =
     \<lparr>host_state = scene, trace = [],
      submit = \<lparr>button_id = ''submit-splat-button'', textContent = ''Submit'',
                className = ''iframe-control-button'', disabled = False\<rparr>,
      cancel = \<lparr>button_id = ''cancel-splat-button'', textContent = ''Cancel'',
                className = ''iframe-control-button'', disabled = False\<rparr>\<rparr>"

text \<open>The world right after \<^verbatim>\<open>createIframeControls\<close>, nothing traced yet.\<close>

definition sample_world :: "nat world" where
  "sample_world =
     \<lparr>host_state = 0, trace = [],
      submit = \<lparr>button_id = ''submit-splat-button'', textContent = ''Submit'',
                className = ''iframe-control-button'', disabled = False\<rparr>,
      cancel = \<lparr>button_id = ''cancel-splat-button'', textContent = ''Cancel'',
                className = ''iframe-control-button'', disabled = False\<rparr>\<rparr>"

definition sample_files :: "file_descriptor list" where
  "sample_files =
     [FileDescriptor (Some ''a.ply'') [1], FileDescriptor (Some ''b.ply'') [2],
      FileDescriptor (Some ''c.ply'') [3]]"

section \<open>Properties\<close>

subsection \<open>Filename derivation\<close>

lemma includes_append_left: "includes_str s sub \<Longrightarrow> includes_str (p @ s) sub"
  by (induction p) simp_all

lemma includes_self: "includes_str s s"
  by (cases s) (simp_all add: starts_with_def)

lemma replace_ply_cases:
  "replace_ply s = s \<or> (\<exists>p. replace_ply s = p @ ''.compressed.ply'')"
proof (induction s)
  case Nil
  show ?case by simp
next
  case (Cons c cs)
  show ?case
  proof (cases "matches_ply_at_end (c # cs)")
    case True
    then have "replace_ply (c # cs) = [] @ ''.compressed.ply''" by simp
    then show ?thesis by blast
  next
    case False
    from Cons.IH show ?thesis
    proof
      assume "replace_ply cs = cs"
      with False show ?thesis by simp
    next
      assume "\<exists>p. replace_ply cs = p @ ''.compressed.ply''"
      then obtain p where "replace_ply cs = p @ ''.compressed.ply''" ..
      with False have "replace_ply (c # cs) = (c # p) @ ''.compressed.ply''" by simp
      then show ?thesis by blast
    qed
  qed
qed

lemma normalize_extension_fixed:
  "includes_str name ''.compressed.ply'' \<Longrightarrow> normalize_extension name = name"
  by (simp add: normalize_extension_def)

lemma normalize_extension_idem:
  "normalize_extension (normalize_extension name) = normalize_extension name"
proof (cases "includes_str name ''.compressed.ply''")
  case True
  then show ?thesis by (simp add: normalize_extension_def)
next
  case False
  then have eq: "normalize_extension name = replace_ply name"
    by (simp add: normalize_extension_def)
  from replace_ply_cases [of name] show ?thesis
  proof
    assume same: "replace_ply name = name"
    with eq show ?thesis by simp
  next
    assume "\<exists>p. replace_ply name = p @ ''.compressed.ply''"
    then obtain p where p: "replace_ply name = p @ ''.compressed.ply''" ..
    have "includes_str (p @ ''.compressed.ply'') ''.compressed.ply''"
      by (rule includes_append_left) (rule includes_self)
    with eq p show ?thesis by (simp add: normalize_extension_fixed)
  qed
qed

lemma replace_ply_nonempty: "s \<noteq> [] \<Longrightarrow> replace_ply s \<noteq> []"
  by (cases s) simp_all

lemma normalize_extension_nonempty: "s \<noteq> [] \<Longrightarrow> normalize_extension s \<noteq> []"
  by (simp add: normalize_extension_def replace_ply_nonempty)

lemma derive_filename_idem: "derive_filename (Some (derive_filename stored)) = derive_filename stored"
proof -
  define n where "n = (case stored of None \<Rightarrow> ''edited.ply''
                        | Some m \<Rightarrow> if m = [] then ''edited.ply'' else m)"
  have n: "n \<noteq> []" "derive_filename stored = normalize_extension n"
    by (simp_all add: n_def derive_filename_def split: option.splits)
  then have "derive_filename stored \<noteq> []" by (simp add: normalize_extension_nonempty)
  then have "derive_filename (Some (derive_filename stored)) = normalize_extension (derive_filename stored)"
    by (simp add: derive_filename_def)
  with n show ?thesis by (simp add: normalize_extension_idem)
qed

text \<open>
  Claim C5. The derived name of \<^verbatim>\<open>model.ply\<close> is \<^verbatim>\<open>model.compressed.ply\<close>, the derived name
  of \<^verbatim>\<open>model.compressed.ply\<close> is itself, and deriving twice gives what deriving once
  gives. This holds for the extension step of lines 135-137 alone and for the whole
  derivation of lines 134-137, default included.
\<close>

theorem filename_derivation:
  "normalize_extension ''model.ply'' = ''model.compressed.ply''
   \<and> normalize_extension ''model.compressed.ply'' = ''model.compressed.ply''
   \<and> normalize_extension (normalize_extension name) = normalize_extension name
   \<and> derive_filename (Some ''model.ply'') = ''model.compressed.ply''
   \<and> derive_filename (Some ''model.compressed.ply'') = ''model.compressed.ply''
   \<and> derive_filename (Some (derive_filename stored)) = derive_filename stored"
proof -
  have a: "normalize_extension ''model.ply'' = ''model.compressed.ply''"
    by (simp add: normalize_extension_def starts_with_def)
  have b: "normalize_extension ''model.compressed.ply'' = ''model.compressed.ply''"
    by (simp add: normalize_extension_def starts_with_def)
  have c: "derive_filename (Some ''model.ply'') = ''model.compressed.ply''"
    using a by (simp add: derive_filename_def)
  have d: "derive_filename (Some ''model.compressed.ply'') = ''model.compressed.ply''"
    using b by (simp add: derive_filename_def)
  from a b c d show ?thesis
    by (simp only: normalize_extension_idem derive_filename_idem simp_thms)
qed

theorem filename_derivation_witness:
  "normalize_extension (normalize_extension ''scan.PLY'') = normalize_extension ''scan.PLY''
   \<and> derive_filename (Some (derive_filename None)) = derive_filename None"
  using filename_derivation [of "''scan.PLY''" None] by simp

subsection \<open>Embedding detector\<close>

text \<open>
  Claim C6. The detector answers true exactly when \<^verbatim>\<open>window.top\<close> can be read and differs
  from \<^verbatim>\<open>window.self\<close>, and it answers true, instead of throwing, when the read of
  \<^verbatim>\<open>window.top\<close> throws. Its result is a truth value and nothing else: it is a function
  of the window and leaves no trace.
\<close>

theorem isInIframe_detects:
  "isInIframe \<lparr>window_self = s, window_top = Returns t\<rparr> = (s \<noteq> t)
   \<and> isInIframe \<lparr>window_self = s, window_top = Throws e\<rparr> = True"
  by (simp add: isInIframe_def)

theorem isInIframe_detects_witness:
  "isInIframe \<lparr>window_self = (1 :: nat), window_top = Returns 0\<rparr>
   \<and> isInIframe \<lparr>window_self = (1 :: nat), window_top = Throws (new_Error ''SecurityError'')\<rparr>"
  using isInIframe_detects [of "1 :: nat" 0 "new_Error ''SecurityError''"] by simp

subsection \<open>Events of the export steps\<close>

lemma phases_append: "phases (a @ b) = phases a @ phases b"
  by (induction a) (simp_all split: option.splits)

lemma posted_append: "posted (a @ b) = posted a @ posted b"
  by (induction a rule: posted.induct) simp_all

lemma invoked_append: "invoked (a @ b) = invoked a @ invoked b"
  by (induction a rule: invoked.induct) simp_all

lemma posted_phase: "3 \<notin> set (phases evs) \<Longrightarrow> posted evs = []"
  by (induction evs rule: posted.induct) (simp_all split: option.splits)

lemma sorted_within: "set ks \<subseteq> {k} \<Longrightarrow> sorted (ks :: nat list)"
  by (induction ks) auto

lemmas effect_defs = call_host_def grows_def emit_def console_error_def console_log_def
  postMessage_def

lemma getCameraPose_grows:
  "getCameraPose H w = (r, w') \<Longrightarrow>
     \<exists>evs. grows w evs w' \<and> set (phases evs) \<subseteq> {0}"
  by (auto simp: getCameraPose_def effect_defs split: prod.splits outcome.splits option.splits)

lemma canvasPromise_grows:
  "canvasPromise H px w = (r, w') \<Longrightarrow>
     \<exists>evs. grows w evs w' \<and> set (phases evs) \<subseteq> {1}"
  by (auto simp: canvasPromise_def effect_defs split: prod.splits outcome.splits option.splits if_splits)

lemma captureThumbnail_grows:
  "captureThumbnail H w = (r, w') \<Longrightarrow>
     \<exists>evs. grows w evs w' \<and> set (phases evs) \<subseteq> {1}"
  by (auto simp: captureThumbnail_def effect_defs phases_append
      split: prod.splits outcome.splits option.splits if_splits dest!: canvasPromise_grows)

lemma exportPly_grows:
  "exportPly H w = (r, w') \<Longrightarrow>
     \<exists>evs. grows w evs w' \<and> set (phases evs) \<subseteq> {2} \<and> invoked evs = [SceneSplats]"
  by (auto simp: exportPly_def effect_defs split: prod.splits outcome.splits option.splits list.splits)

lemma poseStep_grows:
  "poseStep H b w = (r, w') \<Longrightarrow>
     \<exists>evs. grows w evs w' \<and> set (phases evs) \<subseteq> {0} \<and> (\<not> b \<longrightarrow> evs = [] \<and> r = Returns None)"
  by (auto simp: poseStep_def  grows_def phases_append
      split: prod.splits outcome.splits option.splits if_splits dest!: getCameraPose_grows)

lemma thumbnailStep_grows:
  "thumbnailStep H b w = (r, w') \<Longrightarrow>
     \<exists>evs. grows w evs w' \<and> set (phases evs) \<subseteq> {1} \<and> (\<not> b \<longrightarrow> evs = [] \<and> r = Returns None)"
  by (auto simp: thumbnailStep_def  grows_def phases_append
      split: prod.splits outcome.splits option.splits if_splits dest!: captureThumbnail_grows)

text \<open>What the last step leaves: the events of exportPly, then nothing (failure) or the
  submit message and the console line (success).\<close>

lemma plyStep_grows:
  "plyStep H pose thumb w = (r, w') \<Longrightarrow>
     \<exists>c d. grows w (c @ d) w' \<and> set (phases c) \<subseteq> {2} \<and> invoked c = [SceneSplats] \<and>
       (case r of
          Throws err \<Rightarrow> d = [] \<and> err = new_Error ''Failed to export PLY'' \<and> fst (exportPly H w) = None
        | Returns u \<Rightarrow>
            (\<exists>pd. fst (exportPly H w) = Some pd \<and>
              d = [PostMessage (EditorSubmit \<lparr>thumbnail = thumb, plyFile = ply_bytes pd,
                                   filename = ply_filename pd, cameraPose = pose\<rparr>),
                   ConsoleLog ''[IframeIntegration] Successfully sent export to parent'']))"
proof -
  assume s: "plyStep H pose thumb w = (r, w')"
  obtain r1 w1 where e: "exportPly H w = (r1, w1)" by force
  from exportPly_grows [OF e] obtain c where
    c: "grows w c w1" "set (phases c) \<subseteq> {2}" "invoked c = [SceneSplats]"
    by blast
  show ?thesis
  proof (cases r1)
    case None
    with s e have "r = Throws (new_Error ''Failed to export PLY'')" "w' = w1"
      by (simp_all add: plyStep_def)
    with c e None have "grows w (c @ []) w' \<and> set (phases c) \<subseteq> {2} \<and>
        invoked c = [SceneSplats] \<and>
        (case r of
          Throws err \<Rightarrow> [] = ([] :: event list) \<and> err = new_Error ''Failed to export PLY''
             \<and> fst (exportPly H w) = None
        | Returns u \<Rightarrow>
            (\<exists>pd. fst (exportPly H w) = Some pd \<and>
              [] = [PostMessage (EditorSubmit \<lparr>thumbnail = thumb, plyFile = ply_bytes pd,
                                   filename = ply_filename pd, cameraPose = pose\<rparr>),
                   ConsoleLog ''[IframeIntegration] Successfully sent export to parent'']))"
      by simp
    then show ?thesis by blast
  next
    case (Some pd)
    let ?d = "[PostMessage (EditorSubmit \<lparr>thumbnail = thumb, plyFile = ply_bytes pd,
                                   filename = ply_filename pd, cameraPose = pose\<rparr>),
               ConsoleLog ''[IframeIntegration] Successfully sent export to parent'']"
    from s e Some have r: "r = Returns ()" and
      w': "w' = console_log ''[IframeIntegration] Successfully sent export to parent''
             (postMessage
                (EditorSubmit \<lparr>thumbnail = thumb, plyFile = ply_bytes pd,
                                filename = ply_filename pd, cameraPose = pose\<rparr>) w1)"
      by (simp_all add: plyStep_def)
    from w' c(1) have "grows w (c @ ?d) w'"
      by (simp add: grows_def console_log_def postMessage_def emit_def)
    with c(2,3) r e Some show ?thesis by (intro exI [of _ c] exI [of _ ?d]) simp
  qed
qed

lemma performExport_grows:
  assumes "performExport H options w = (r, w')"
  shows "\<exists>a b c d w2. grows w (a @ b) w2 \<and> grows w2 (c @ d) w' \<and>
           set (phases a) \<subseteq> {0} \<and> set (phases b) \<subseteq> {1} \<and> set (phases c) \<subseteq> {2} \<and>
           (includeCameraPose options = Some False \<longrightarrow> a = []) \<and>
           (includeThumbnail options = Some False \<longrightarrow> b = []) \<and>
           (case r of
              Throws err \<Rightarrow> d = []
            | Returns u \<Rightarrow>
               invoked c = [SceneSplats] \<and>
               (\<exists>pd pose thumb. fst (exportPly H w2) = Some pd \<and>
                 (includeCameraPose options = Some False \<longrightarrow> pose = None) \<and>
                 (includeThumbnail options = Some False \<longrightarrow> thumb = None) \<and>
                 d = [PostMessage (EditorSubmit \<lparr>thumbnail = thumb, plyFile = ply_bytes pd,
                                   filename = ply_filename pd, cameraPose = pose\<rparr>),
                      ConsoleLog ''[IframeIntegration] Successfully sent export to parent'']))"
proof -
  let ?wp = "case includeCameraPose options of None \<Rightarrow> True | Some b \<Rightarrow> b"
  let ?wt = "case includeThumbnail options of None \<Rightarrow> True | Some b \<Rightarrow> b"
  obtain r1 w1 where p: "poseStep H ?wp w = (r1, w1)" by force
  from poseStep_grows [OF p] obtain a where
    a: "grows w a w1" "set (phases a) \<subseteq> {0}" "\<not> ?wp \<longrightarrow> a = [] \<and> r1 = Returns None"
    by blast
  have a0: "includeCameraPose options = Some False \<longrightarrow> a = [] \<and> r1 = Returns None"
    using a(3) by simp
  show ?thesis
  proof (cases r1)
    case (Throws err)
    with assms p have "r = Throws err" "w' = w1" by (simp_all add: performExport_def)
    with a a0 have "grows w (a @ []) w1 \<and> grows w1 ([] @ []) w' \<and>
           set (phases a) \<subseteq> {0} \<and> set (phases []) \<subseteq> {1} \<and> set (phases []) \<subseteq> {2} \<and>
           (includeCameraPose options = Some False \<longrightarrow> a = []) \<and>
           (includeThumbnail options = Some False \<longrightarrow> [] = ([] :: event list))"
      by (simp add: grows_def)
    with \<open>r = Throws err\<close> show ?thesis by fastforce
  next
    case (Returns pose)
    obtain r2 w2 where t: "thumbnailStep H ?wt w1 = (r2, w2)" by force
    from thumbnailStep_grows [OF t] obtain b where
      b: "grows w1 b w2" "set (phases b) \<subseteq> {1}" "\<not> ?wt \<longrightarrow> b = [] \<and> r2 = Returns None"
      by blast
    have b0: "includeThumbnail options = Some False \<longrightarrow> b = [] \<and> r2 = Returns None"
      using b(3) by simp
    have ab: "grows w (a @ b) w2" using a(1) b(1) by (simp add: grows_def)
    show ?thesis
    proof (cases r2)
      case (Throws err)
      with assms p t Returns have "r = Throws err" "w' = w2" by (simp_all add: performExport_def)
      with ab a a0 b b0 have "grows w (a @ b) w2 \<and> grows w2 ([] @ []) w' \<and>
           set (phases a) \<subseteq> {0} \<and> set (phases b) \<subseteq> {1} \<and> set (phases []) \<subseteq> {2} \<and>
           (includeCameraPose options = Some False \<longrightarrow> a = []) \<and>
           (includeThumbnail options = Some False \<longrightarrow> b = [])"
        by (simp add: grows_def)
      with \<open>r = Throws err\<close> show ?thesis by fastforce
    next
      case r2: (Returns thumb)
      with assms p t Returns have s: "plyStep H pose thumb w2 = (r, w')"
        by (simp add: performExport_def)
      from plyStep_grows [OF s] obtain c d where
        cd: "grows w2 (c @ d) w'" "set (phases c) \<subseteq> {2}" "invoked c = [SceneSplats]"
          "case r of
            Throws err \<Rightarrow> d = [] \<and> err = new_Error ''Failed to export PLY'' \<and> fst (exportPly H w2) = None
          | Returns u \<Rightarrow>
            (\<exists>pd. fst (exportPly H w2) = Some pd \<and>
              d = [PostMessage (EditorSubmit \<lparr>thumbnail = thumb, plyFile = ply_bytes pd,
                                   filename = ply_filename pd, cameraPose = pose\<rparr>),
                   ConsoleLog ''[IframeIntegration] Successfully sent export to parent''])"
        by blast
      have pose0: "includeCameraPose options = Some False \<longrightarrow> pose = None"
        using a0 Returns by simp
      have thumb0: "includeThumbnail options = Some False \<longrightarrow> thumb = None"
        using b0 r2 by simp
      have last: "case r of
              Throws err \<Rightarrow> d = []
            | Returns u \<Rightarrow>
               invoked c = [SceneSplats] \<and>
               (\<exists>pd pose thumb. fst (exportPly H w2) = Some pd \<and>
                 (includeCameraPose options = Some False \<longrightarrow> pose = None) \<and>
                 (includeThumbnail options = Some False \<longrightarrow> thumb = None) \<and>
                 d = [PostMessage (EditorSubmit \<lparr>thumbnail = thumb, plyFile = ply_bytes pd,
                                   filename = ply_filename pd, cameraPose = pose\<rparr>),
                      ConsoleLog ''[IframeIntegration] Successfully sent export to parent''])"
        using cd(3,4) pose0 thumb0 by (cases r) auto
      from ab cd(1,2) a(2) b(2) a0 b0 last show ?thesis by blast
    qed
  qed
qed


lemma performExport_bare:
  "performExport H \<lparr>includeThumbnail = Some False, includeCameraPose = Some False\<rparr> w
     = plyStep H None None w"
  by (simp add: performExport_def poseStep_def thumbnailStep_def)

lemma exportPly_None:
  assumes "fst (invoke_scene_splats H (host_state w)) = Returns None
           \<or> fst (invoke_scene_splats H (host_state w)) = Returns (Some [])"
  shows "fst (exportPly H w) = None"
proof -
  obtain r h' where c: "invoke_scene_splats H (host_state w) = (r, h')" by force
  with assms have "r = Returns None \<or> r = Returns (Some [])" by simp
  with c show ?thesis by (auto simp: exportPly_def call_host_def)
qed

lemma exportPly_filename:
  assumes "fst (exportPly H w) = Some pd"
  shows "\<exists>first others. fst (invoke_scene_splats H (host_state w)) = Returns (Some (first # others))
           \<and> ply_filename pd = derive_filename (splat_filename first)"
  using assms
  by (auto simp: exportPly_def call_host_def
      split: prod.splits outcome.splits option.splits list.splits)

text \<open>
  How a run of \<^verbatim>\<open>performExport\<close> passes line 193: either the pose and thumbnail steps
  return and the rest of the run is the last step from the world they leave, or one of
  them throws and that is the end of the run. Up to there all events have phase 0 or 1.
\<close>

lemma world_at_exportPly_Some:
  assumes "world_at_exportPly H options w = Some w2"
  shows "\<exists>pose thumb evs. performExport H options w = plyStep H pose thumb w2
           \<and> grows w evs w2 \<and> set (phases evs) \<subseteq> {0, 1}"
proof -
  let ?wp = "case includeCameraPose options of None \<Rightarrow> True | Some b \<Rightarrow> b"
  let ?wt = "case includeThumbnail options of None \<Rightarrow> True | Some b \<Rightarrow> b"
  obtain r1 w1 where p: "poseStep H ?wp w = (r1, w1)" by force
  obtain r2 w2' where t: "thumbnailStep H ?wt w1 = (r2, w2')" by force
  from assms p t obtain pose thumb where
    r: "r1 = Returns pose" "r2 = Returns thumb" "w2' = w2"
    by (auto simp: world_at_exportPly_def split: outcome.splits)
  from poseStep_grows [OF p] obtain a where a: "grows w a w1" "set (phases a) \<subseteq> {0}"
    by blast
  from thumbnailStep_grows [OF t] r(3) obtain b where
    b: "grows w1 b w2" "set (phases b) \<subseteq> {1}"
    by blast
  from a(1) b(1) have g: "grows w (a @ b) w2" by (simp add: grows_def)
  from a(2) b(2) have ph: "set (phases (a @ b)) \<subseteq> {0, 1}" by (auto simp: phases_append)
  from p t r have "performExport H options w = plyStep H pose thumb w2"
    by (simp add: performExport_def)
  with g ph show ?thesis by blast
qed

lemma world_at_exportPly_None:
  assumes "world_at_exportPly H options w = None"
  shows "\<exists>err w' evs. performExport H options w = (Throws err, w')
           \<and> grows w evs w' \<and> set (phases evs) \<subseteq> {0, 1}"
proof -
  let ?wp = "case includeCameraPose options of None \<Rightarrow> True | Some b \<Rightarrow> b"
  let ?wt = "case includeThumbnail options of None \<Rightarrow> True | Some b \<Rightarrow> b"
  obtain r1 w1 where p: "poseStep H ?wp w = (r1, w1)" by force
  from poseStep_grows [OF p] obtain a where a: "grows w a w1" "set (phases a) \<subseteq> {0}"
    by blast
  show ?thesis
  proof (cases r1)
    case (Throws err)
    with p have "performExport H options w = (Throws err, w1)"
      by (simp add: performExport_def)
    moreover from a(2) have "set (phases a) \<subseteq> {0, 1}" by auto
    ultimately show ?thesis using a(1) by blast
  next
    case (Returns pose)
    obtain r2 w2 where t: "thumbnailStep H ?wt w1 = (r2, w2)" by force
    from thumbnailStep_grows [OF t] obtain b where
      b: "grows w1 b w2" "set (phases b) \<subseteq> {1}"
      by blast
    from assms p t Returns obtain err where r2: "r2 = Throws err"
      by (cases r2) (simp_all add: world_at_exportPly_def)
    with p t Returns have "performExport H options w = (Throws err, w2)"
      by (simp add: performExport_def)
    moreover from a(1) b(1) have "grows w (a @ b) w2" by (simp add: grows_def)
    moreover from a(2) b(2) have "set (phases (a @ b)) \<subseteq> {0, 1}"
      by (auto simp: phases_append)
    ultimately show ?thesis by blast
  qed
qed

subsection \<open>Set-up\<close>

text \<open>
  \<^verbatim>\<open>createIframeControls\<close> makes the two buttons enabled, and appends Cancel before
  Submit; the sample world holds exactly these buttons.
\<close>

lemma createIframeControls_idle:
  "submit (createIframeControls w) = submit sample_world
   \<and> cancel (createIframeControls w) = cancel sample_world
   \<and> trace (createIframeControls w)
       = trace w @ [AppendChild ''cancel-splat-button'', AppendChild ''submit-splat-button'']"
  by (simp add: createIframeControls_def sample_world_def emit_def)

text \<open>Outside an iframe nothing is posted; inside, the two ready messages are.\<close>

lemma initIframeIntegration_posts:
  "posted (trace (initIframeIntegration win (w\<lparr>trace := []\<rparr>)))
     = (if isInIframe win then [EditorReady, SupersplatReady] else [])"
  by (simp add: initIframeIntegration_def createIframeControls_def console_log_def
      postMessage_def emit_def)

lemma cancel_click_posts: "posted (trace (cancel_click (w\<lparr>trace := []\<rparr>))) = [EditorCancel]"
  by (simp add: cancel_click_def console_log_def postMessage_def emit_def)

subsection \<open>Import messages\<close>

text \<open>
  Claim C10. An import message whose \<^verbatim>\<open>files\<close> is absent, \<^verbatim>\<open>null\<close> or an empty list
  makes the listener write its console line and return: no command goes to the event bus
  (so nothing reaches the import pipeline), no message is posted, and the collaborators'
  state is what it was.
\<close>

theorem import_without_files:
  assumes "data_type e = Some ''supersplat:import''"
    and "data_files e = FilesUndefined \<or> data_files e = FilesNull \<or> data_files e = FilesArray []"
  shows "\<exists>evs. grows w evs (message_listener H e w) \<and> invoked evs = [] \<and> posted evs = []
           \<and> host_state (message_listener H e w) = host_state w"
proof -
  from assms have
    "message_listener H e w = console_log ''[IframeIntegration] Import message received:'' w"
    by (auto simp: message_listener_def)
  then have "grows w [ConsoleLog ''[IframeIntegration] Import message received:'']
               (message_listener H e w)
             \<and> host_state (message_listener H e w) = host_state w"
    by (simp add: grows_def console_log_def emit_def)
  then show ?thesis by (intro exI [of _ "[ConsoleLog ''[IframeIntegration] Import message received:'']"]) simp
qed


theorem import_without_files_witness:
  "data_type \<lparr>data_type = Some ''supersplat:import'', data_files = FilesNull\<rparr>
     = Some ''supersplat:import''
   \<and> (\<exists>evs. grows sample_world evs
         (message_listener sample_host
            \<lparr>data_type = Some ''supersplat:import'', data_files = FilesNull\<rparr> sample_world)
        \<and> invoked evs = [] \<and> posted evs = []
        \<and> host_state
            (message_listener sample_host
               \<lparr>data_type = Some ''supersplat:import'', data_files = FilesNull\<rparr> sample_world)
          = host_state sample_world)"
  using import_without_files
    [of "\<lparr>data_type = Some ''supersplat:import'', data_files = FilesNull\<rparr>"
        sample_world sample_host]
  by simp

subsection \<open>The export pipeline\<close>

lemma grows_append: "grows w a w1 \<Longrightarrow> grows w1 b w2 \<Longrightarrow> grows w (a @ b) w2"
  by (simp add: grows_def)

lemma phases_no_post: "set (phases evs) \<subseteq> {0, 1, 2} \<Longrightarrow> posted evs = []"
  by (rule posted_phase) auto

lemmas run_defs = performExport_def poseStep_def thumbnailStep_def plyStep_def exportPly_def
  captureThumbnail_def canvasPromise_def getCameraPose_def call_host_def emit_def
  console_error_def console_log_def postMessage_def serializeSettings_def
  derive_filename_def normalize_extension_def starts_with_def

text \<open>
  Claim C2. When the scene holds no splat at the moment this call reads it (in the world
  in which line 193 calls \<^verbatim>\<open>exportPly\<close>, \<^verbatim>\<open>scene.splats\<close> answers with a falsy value or
  with an empty list), the call of \<^verbatim>\<open>performExport\<close>, with any options and from any
  world, ends in a thrown error, and the run posts no message at all to the parent, so no
  \<^verbatim>\<open>splat-editor-submit\<close>. Nothing is asked of the scene in other states. (When the pose
  or the thumbnail step throws, the scene is not read and the call has failed already.)
\<close>

theorem export_fails_on_empty_scene:
  assumes "\<forall>w2. world_at_exportPly H options w = Some w2 \<longrightarrow>
             fst (invoke_scene_splats H (host_state w2)) = Returns None
             \<or> fst (invoke_scene_splats H (host_state w2)) = Returns (Some [])"
  shows "\<exists>err w' evs. performExport H options w = (Throws err, w') \<and> grows w evs w'
           \<and> posted evs = []"
proof (cases "world_at_exportPly H options w")
  case None
  from world_at_exportPly_None [OF None] obtain err w' evs where
    r: "performExport H options w = (Throws err, w')" "grows w evs w'"
      "set (phases evs) \<subseteq> {0, 1}"
    by blast
  from r(3) have "posted evs = []" by (intro posted_phase) auto
  with r(1,2) show ?thesis by blast
next
  case (Some w2)
  from world_at_exportPly_Some [OF Some] obtain pose thumb evs where
    pe: "performExport H options w = plyStep H pose thumb w2"
    and g: "grows w evs w2" and ph: "set (phases evs) \<subseteq> {0, 1}"
    by blast
  from assms Some have "fst (invoke_scene_splats H (host_state w2)) = Returns None
             \<or> fst (invoke_scene_splats H (host_state w2)) = Returns (Some [])"
    by simp
  then have none: "fst (exportPly H w2) = None" by (rule exportPly_None)
  obtain r w' where s: "plyStep H pose thumb w2 = (r, w')" by force
  from plyStep_grows [OF s] obtain c d where
    cd: "grows w2 (c @ d) w'" "set (phases c) \<subseteq> {2}"
    and last: "case r of
          Throws err \<Rightarrow> d = [] \<and> err = new_Error ''Failed to export PLY''
            \<and> fst (exportPly H w2) = None
        | Returns u \<Rightarrow>
            (\<exists>pd. fst (exportPly H w2) = Some pd \<and>
              d = [PostMessage (EditorSubmit \<lparr>thumbnail = thumb, plyFile = ply_bytes pd,
                                   filename = ply_filename pd, cameraPose = pose\<rparr>),
                   ConsoleLog ''[IframeIntegration] Successfully sent export to parent''])"
    by blast
  from last none obtain err where r: "r = Throws err" and d: "d = []"
    by (cases r) auto
  from g cd(1) d have gr: "grows w (evs @ c) w'" by (simp add: grows_def)
  from ph cd(2) have "3 \<notin> set (phases (evs @ c))" by (auto simp: phases_append)
  then have "posted (evs @ c) = []" by (rule posted_phase)
  with pe s r gr show ?thesis by auto
qed

theorem export_fails_on_empty_scene_witness:
  "map_option host_state
     (world_at_exportPly scene_host \<lparr>includeThumbnail = None, includeCameraPose = None\<rparr>
        (scene_world [])) = Some []
   \<and> fst (invoke_scene_splats scene_host []) = Returns (Some [])
   \<and> fst (invoke_scene_splats scene_host [Splat (Some ''model.ply'') [1, 2, 3]])
       = Returns (Some [Splat (Some ''model.ply'') [1, 2, 3]])
   \<and> (\<exists>err w' evs.
         performExport scene_host \<lparr>includeThumbnail = None, includeCameraPose = None\<rparr>
           (scene_world []) = (Throws err, w')
         \<and> grows (scene_world []) evs w' \<and> posted evs = [])"
proof -
  let ?opts = "\<lparr>includeThumbnail = None, includeCameraPose = None\<rparr>"
  have at: "map_option host_state (world_at_exportPly scene_host ?opts (scene_world []))
              = Some []"
    by (simp add: world_at_exportPly_def poseStep_def thumbnailStep_def getCameraPose_def
        captureThumbnail_def canvasPromise_def call_host_def emit_def scene_host_def
        scene_world_def)
  have s: "fst (invoke_scene_splats scene_host []) = Returns (Some [])"
    "fst (invoke_scene_splats scene_host [Splat (Some ''model.ply'') [1, 2, 3]])
       = Returns (Some [Splat (Some ''model.ply'') [1, 2, 3]])"
    by (simp_all add: scene_host_def)
  have h: "\<forall>w2. world_at_exportPly scene_host ?opts (scene_world []) = Some w2 \<longrightarrow>
             fst (invoke_scene_splats scene_host (host_state w2)) = Returns None
             \<or> fst (invoke_scene_splats scene_host (host_state w2)) = Returns (Some [])"
    using at s(1) by auto
  from at s export_fails_on_empty_scene [OF h] show ?thesis by blast
qed

text \<open>
  Claim C3. With both options false, \<^verbatim>\<open>performExport\<close> sends one command over the bus,
  \<^verbatim>\<open>scene.splats\<close>: neither \<^verbatim>\<open>camera.getPose\<close> nor \<^verbatim>\<open>camera.fov\<close> nor
  \<^verbatim>\<open>render.offscreen\<close>, and no canvas call either (every event has phase 2 or 3). When
  \<^verbatim>\<open>exportPly\<close> gives PLY data, the call returns and the one message posted is the
  submit message with that data, \<^verbatim>\<open>thumbnail: null\<close> and \<^verbatim>\<open>cameraPose: null\<close>.
\<close>

theorem export_without_extras:
  "\<exists>r w' evs.
     performExport H \<lparr>includeThumbnail = Some False, includeCameraPose = Some False\<rparr> w = (r, w')
     \<and> grows w evs w' \<and> invoked evs = [SceneSplats] \<and> set (phases evs) \<subseteq> {2, 3}
     \<and> (\<forall>pd. fst (exportPly H w) = Some pd \<longrightarrow>
           r = Returns ()
           \<and> posted evs = [EditorSubmit \<lparr>thumbnail = None, plyFile = ply_bytes pd,
                                          filename = ply_filename pd, cameraPose = None\<rparr>])"
proof -
  obtain r w' where p: "plyStep H None None w = (r, w')" by force
  from plyStep_grows [OF p] obtain c d where
    g: "grows w (c @ d) w'" and c: "set (phases c) \<subseteq> {2}" "invoked c = [SceneSplats]"
    and last: "case r of
          Throws err \<Rightarrow> d = [] \<and> err = new_Error ''Failed to export PLY'' \<and> fst (exportPly H w) = None
        | Returns u \<Rightarrow>
            (\<exists>pd. fst (exportPly H w) = Some pd \<and>
              d = [PostMessage (EditorSubmit \<lparr>thumbnail = None, plyFile = ply_bytes pd,
                                   filename = ply_filename pd, cameraPose = None\<rparr>),
                   ConsoleLog ''[IframeIntegration] Successfully sent export to parent''])"
    by blast
  have pc: "posted c = []" using c(1) by (intro posted_phase) auto
  have "invoked (c @ d) = [SceneSplats] \<and> set (phases (c @ d)) \<subseteq> {2, 3}
     \<and> (\<forall>pd. fst (exportPly H w) = Some pd \<longrightarrow>
           r = Returns ()
           \<and> posted (c @ d) = [EditorSubmit \<lparr>thumbnail = None, plyFile = ply_bytes pd,
                                          filename = ply_filename pd, cameraPose = None\<rparr>])"
    using c last pc by (cases r) (auto simp: invoked_append phases_append posted_append)
  with p g show ?thesis unfolding performExport_bare by blast
qed


theorem export_without_extras_witness:
  "fst (exportPly sample_host sample_world)
     = Some \<lparr>ply_filename = ''model.compressed.ply'', ply_bytes = [1, 2, 3]\<rparr>
   \<and> (\<exists>w' evs.
         performExport sample_host
           \<lparr>includeThumbnail = Some False, includeCameraPose = Some False\<rparr> sample_world
           = (Returns (), w')
         \<and> grows sample_world evs w' \<and> invoked evs = [SceneSplats]
         \<and> posted evs = [EditorSubmit \<lparr>thumbnail = None, plyFile = [1, 2, 3],
                                        filename = ''model.compressed.ply'', cameraPose = None\<rparr>])"
proof -
  have h: "fst (exportPly sample_host sample_world)
     = Some \<lparr>ply_filename = ''model.compressed.ply'', ply_bytes = [1, 2, 3]\<rparr>"
    by (simp add: run_defs sample_host_def sample_world_def)
  from export_without_extras [of sample_host sample_world] h show ?thesis
    by fastforce
qed

text \<open>
  Claim C7. In every run of \<^verbatim>\<open>performExport\<close> the events come in the order of their
  phases: camera pose, then thumbnail, then serialization, then the post. When the pose is
  requested (the option is not \<^verbatim>\<open>false\<close>) and \<^verbatim>\<open>getCameraPose\<close> gives \<^verbatim>\<open>null\<close>, the
  call throws \<^verbatim>\<open>Failed to capture camera pose\<close> from the world \<^verbatim>\<open>getCameraPose\<close> left:
  every event of the run has phase 0, so there is no offscreen render, no canvas call, no
  read of the splats, no serialization and no post.
\<close>

theorem pose_failure_aborts_export:
  "(\<exists>evs. grows w evs (snd (performExport H options w)) \<and> sorted (phases evs))
   \<and> (includeCameraPose options \<noteq> Some False \<longrightarrow> fst (getCameraPose H w) = None \<longrightarrow>
        fst (performExport H options w) = Throws (new_Error ''Failed to capture camera pose'')
        \<and> snd (performExport H options w) = snd (getCameraPose H w)
        \<and> (\<exists>evs. grows w evs (snd (performExport H options w)) \<and> set (phases evs) \<subseteq> {0}))"
proof
  obtain r w' where p: "performExport H options w = (r, w')" by force
  from performExport_grows [OF p] obtain a b c d w2 where
    g: "grows w (a @ b) w2" "grows w2 (c @ d) w'"
    and ph: "set (phases a) \<subseteq> {0}" "set (phases b) \<subseteq> {1}" "set (phases c) \<subseteq> {2}"
    and last: "case r of
              Throws err \<Rightarrow> d = []
            | Returns u \<Rightarrow>
               invoked c = [SceneSplats] \<and>
               (\<exists>pd pose thumb. fst (exportPly H w2) = Some pd \<and>
                 (includeCameraPose options = Some False \<longrightarrow> pose = None) \<and>
                 (includeThumbnail options = Some False \<longrightarrow> thumb = None) \<and>
                 d = [PostMessage (EditorSubmit \<lparr>thumbnail = thumb, plyFile = ply_bytes pd,
                                   filename = ply_filename pd, cameraPose = pose\<rparr>),
                      ConsoleLog ''[IframeIntegration] Successfully sent export to parent''])"
    by blast
  from last have d: "set (phases d) \<subseteq> {3}" by (cases r) auto
  have "sorted (phases a @ phases b @ phases c @ phases d)"
    using ph d by (simp add: sorted_append sorted_within) fastforce
  then have "sorted (phases ((a @ b) @ c @ d))" by (simp add: phases_append)
  moreover from g have "grows w ((a @ b) @ c @ d) w'" by (rule grows_append)
  ultimately show "\<exists>evs. grows w evs (snd (performExport H options w)) \<and> sorted (phases evs)"
    using p by auto
next
  show "includeCameraPose options \<noteq> Some False \<longrightarrow> fst (getCameraPose H w) = None \<longrightarrow>
        fst (performExport H options w) = Throws (new_Error ''Failed to capture camera pose'')
        \<and> snd (performExport H options w) = snd (getCameraPose H w)
        \<and> (\<exists>evs. grows w evs (snd (performExport H options w)) \<and> set (phases evs) \<subseteq> {0})"
  proof (intro impI)
    assume want: "includeCameraPose options \<noteq> Some False"
      and none: "fst (getCameraPose H w) = None"
    obtain w1 where gc: "getCameraPose H w = (None, w1)"
      using none by (cases "getCameraPose H w") simp
    from want have wp: "(case includeCameraPose options of None \<Rightarrow> True | Some b \<Rightarrow> b)"
      by (cases "includeCameraPose options") auto
    from gc wp have pe:
      "performExport H options w = (Throws (new_Error ''Failed to capture camera pose''), w1)"
      by (simp add: performExport_def poseStep_def)
    from getCameraPose_grows [OF gc] pe gc
    show "fst (performExport H options w) = Throws (new_Error ''Failed to capture camera pose'')
        \<and> snd (performExport H options w) = snd (getCameraPose H w)
        \<and> (\<exists>evs. grows w evs (snd (performExport H options w)) \<and> set (phases evs) \<subseteq> {0})"
      by simp
  qed
qed

theorem pose_failure_aborts_export_witness:
  "includeCameraPose \<lparr>includeThumbnail = None, includeCameraPose = None\<rparr> \<noteq> Some False
   \<and> fst (getCameraPose no_pose_host sample_world) = None
   \<and> fst (performExport no_pose_host \<lparr>includeThumbnail = None, includeCameraPose = None\<rparr>
            sample_world)
       = Throws (new_Error ''Failed to capture camera pose'')
   \<and> (\<exists>evs. grows sample_world evs
          (snd (performExport no_pose_host
                  \<lparr>includeThumbnail = None, includeCameraPose = None\<rparr> sample_world))
        \<and> set (phases evs) \<subseteq> {0})"
proof -
  have h: "fst (getCameraPose no_pose_host sample_world) = None"
    by (simp add: getCameraPose_def call_host_def no_pose_host_def sample_host_def
        sample_world_def)
  from h pose_failure_aborts_export
    [of sample_world no_pose_host "\<lparr>includeThumbnail = None, includeCameraPose = None\<rparr>"]
  show ?thesis by auto
qed


subsection \<open>Auto-export messages\<close>

lemma auto_export_run:
  "data_type e = Some ''supersplat:auto-export'' \<Longrightarrow>
   message_listener H e w =
     (case plyStep H None None (console_log ''[IframeIntegration] Auto-export message received'' w) of
        (Returns u, w1) \<Rightarrow> w1
      | (Throws err, w1) \<Rightarrow>
          postMessage (EditorError (error_text err))
            (console_error ''[IframeIntegration] Error during auto-export:'' w1))"
  by (simp add: message_listener_def performExport_bare)

text \<open>
  Claim C8. For an auto-export message the listener runs \<^verbatim>\<open>performExport\<close> with both
  options false: the only bus command of the whole handler is \<^verbatim>\<open>scene.splats\<close> and no
  event belongs to the pose or thumbnail phase. When the export throws, the handler posts
  exactly one message, \<^verbatim>\<open>splat-editor-error\<close> with the error's text; when it returns,
  the one message is the submit message, without thumbnail and pose. In both cases the two
  buttons are what they were.
\<close>

theorem auto_export_leaves_buttons:
  assumes "data_type e = Some ''supersplat:auto-export''"
  shows "\<exists>r w1 evs.
     performExport H \<lparr>includeThumbnail = Some False, includeCameraPose = Some False\<rparr>
       (console_log ''[IframeIntegration] Auto-export message received'' w) = (r, w1)
     \<and> grows w evs (message_listener H e w)
     \<and> submit (message_listener H e w) = submit w
     \<and> cancel (message_listener H e w) = cancel w
     \<and> invoked evs = [SceneSplats] \<and> set (phases evs) \<subseteq> {2, 3}
     \<and> (case r of
           Returns u \<Rightarrow>
             message_listener H e w = w1
             \<and> (\<exists>b. posted evs = [EditorSubmit b] \<and> thumbnail b = None \<and> cameraPose b = None)
         | Throws err \<Rightarrow> posted evs = [EditorError (error_text err)])"
proof -
  let ?w0 = "console_log ''[IframeIntegration] Auto-export message received'' w"
  let ?w' = "message_listener H e w"
  obtain r w1 where p: "plyStep H None None ?w0 = (r, w1)" by force
  from plyStep_grows [OF p] obtain c d where
    g: "grows ?w0 (c @ d) w1" and c: "set (phases c) \<subseteq> {2}" "invoked c = [SceneSplats]"
    and last: "case r of
          Throws err \<Rightarrow> d = [] \<and> err = new_Error ''Failed to export PLY''
            \<and> fst (exportPly H ?w0) = None
        | Returns u \<Rightarrow>
            (\<exists>pd. fst (exportPly H ?w0) = Some pd \<and>
              d = [PostMessage (EditorSubmit \<lparr>thumbnail = None, plyFile = ply_bytes pd,
                                   filename = ply_filename pd, cameraPose = None\<rparr>),
                   ConsoleLog ''[IframeIntegration] Successfully sent export to parent''])"
    by blast
  have pc: "posted c = []" using c(1) by (intro posted_phase) auto
  have g0: "grows w (ConsoleLog ''[IframeIntegration] Auto-export message received'' # c @ d) w1"
    using g by (simp add: grows_def console_log_def emit_def)
  show ?thesis
  proof (cases r)
    case (Returns u)
    with p assms have w': "?w' = w1" by (simp add: auto_export_run)
    from Returns last have
      "\<exists>pd. fst (exportPly H ?w0) = Some pd \<and>
         d = [PostMessage (EditorSubmit \<lparr>thumbnail = None, plyFile = ply_bytes pd,
                                   filename = ply_filename pd, cameraPose = None\<rparr>),
              ConsoleLog ''[IframeIntegration] Successfully sent export to parent'']"
      by simp
    then obtain pd where
      "fst (exportPly H ?w0) = Some pd \<and>
         d = [PostMessage (EditorSubmit \<lparr>thumbnail = None, plyFile = ply_bytes pd,
                                   filename = ply_filename pd, cameraPose = None\<rparr>),
              ConsoleLog ''[IframeIntegration] Successfully sent export to parent'']" ..
    then have
      d: "d = [PostMessage (EditorSubmit \<lparr>thumbnail = None, plyFile = ply_bytes pd,
                                   filename = ply_filename pd, cameraPose = None\<rparr>),
               ConsoleLog ''[IframeIntegration] Successfully sent export to parent'']" ..
    let ?evs = "ConsoleLog ''[IframeIntegration] Auto-export message received'' # c @ d"
    have "grows w ?evs ?w' \<and> submit ?w' = submit w \<and> cancel ?w' = cancel w
      \<and> invoked ?evs = [SceneSplats] \<and> set (phases ?evs) \<subseteq> {2, 3}
      \<and> ?w' = w1
      \<and> posted ?evs = [EditorSubmit \<lparr>thumbnail = None, plyFile = ply_bytes pd,
                                   filename = ply_filename pd, cameraPose = None\<rparr>]"
      using g0 w' c pc d by (auto simp: grows_def invoked_append phases_append posted_append)
    with p Returns show ?thesis unfolding performExport_bare by fastforce
  next
    case (Throws err)
    with p assms have w': "?w' = postMessage (EditorError (error_text err))
            (console_error ''[IframeIntegration] Error during auto-export:'' w1)"
      by (simp add: auto_export_run)
    from Throws last have d: "d = []" by simp
    let ?evs = "(ConsoleLog ''[IframeIntegration] Auto-export message received'' # c)
                 @ [ConsoleError ''[IframeIntegration] Error during auto-export:'',
                    PostMessage (EditorError (error_text err))]"
    have "grows w ?evs ?w' \<and> submit ?w' = submit w \<and> cancel ?w' = cancel w
      \<and> invoked ?evs = [SceneSplats] \<and> set (phases ?evs) \<subseteq> {2, 3}
      \<and> posted ?evs = [EditorError (error_text err)]"
      using g0 w' c pc d
      by (auto simp: grows_def invoked_append phases_append posted_append postMessage_def
          console_error_def emit_def)
    with p Throws show ?thesis unfolding performExport_bare by fastforce
  qed
qed

theorem auto_export_leaves_buttons_witness:
  "data_type \<lparr>data_type = Some ''supersplat:auto-export'', data_files = FilesUndefined\<rparr>
     = Some ''supersplat:auto-export''
   \<and> submit (message_listener empty_scene_host
        \<lparr>data_type = Some ''supersplat:auto-export'', data_files = FilesUndefined\<rparr>
        (submit_click_entry sample_world))
      = submit (submit_click_entry sample_world)
   \<and> cancel (message_listener empty_scene_host
        \<lparr>data_type = Some ''supersplat:auto-export'', data_files = FilesUndefined\<rparr>
        (submit_click_entry sample_world))
      = cancel (submit_click_entry sample_world)"
  using auto_export_leaves_buttons
    [of "\<lparr>data_type = Some ''supersplat:auto-export'', data_files = FilesUndefined\<rparr>"
        empty_scene_host "submit_click_entry sample_world"]
  by auto

subsection \<open>The default filename\<close>

text \<open>
  Claim C9. An export that succeeds has read a scene with a first splat, in the world in
  which line 193 calls \<^verbatim>\<open>exportPly\<close>; it posts one message, the submit message, and the
  filename posted is the one derived from that first splat's stored filename. So when
  that stored filename is absent (\<^verbatim>\<open>null\<close>, \<^verbatim>\<open>undefined\<close> or the empty string), the
  filename posted is \<^verbatim>\<open>edited.compressed.ply\<close>. Nothing is asked of the scene in other
  states.
\<close>

theorem default_filename_posted:
  assumes ok: "fst (performExport H options w) = Returns u"
  shows "\<exists>w2 first others evs b.
           world_at_exportPly H options w = Some w2
           \<and> fst (invoke_scene_splats H (host_state w2)) = Returns (Some (first # others))
           \<and> grows w evs (snd (performExport H options w))
           \<and> posted evs = [EditorSubmit b]
           \<and> filename b = derive_filename (splat_filename first)
           \<and> (splat_filename first = None \<or> splat_filename first = Some [] \<longrightarrow>
                filename b = ''edited.compressed.ply'')"
proof -
  obtain w' where p: "performExport H options w = (Returns u, w')"
    using ok by (cases "performExport H options w") simp
  have "world_at_exportPly H options w \<noteq> None"
  proof
    assume "world_at_exportPly H options w = None"
    from world_at_exportPly_None [OF this] p show False by auto
  qed
  then obtain w2 where at: "world_at_exportPly H options w = Some w2" by blast
  from world_at_exportPly_Some [OF at] obtain pose thumb evs where
    pe: "performExport H options w = plyStep H pose thumb w2"
    and g: "grows w evs w2" and ph: "set (phases evs) \<subseteq> {0, 1}"
    by blast
  from pe p have s: "plyStep H pose thumb w2 = (Returns u, w')" by simp
  from plyStep_grows [OF s] obtain c d where
    cd: "grows w2 (c @ d) w'" "set (phases c) \<subseteq> {2}"
    and last: "\<exists>pd. fst (exportPly H w2) = Some pd \<and>
              d = [PostMessage (EditorSubmit \<lparr>thumbnail = thumb, plyFile = ply_bytes pd,
                                   filename = ply_filename pd, cameraPose = pose\<rparr>),
                   ConsoleLog ''[IframeIntegration] Successfully sent export to parent'']"
    by fastforce
  from last obtain pd where
    "fst (exportPly H w2) = Some pd \<and>
              d = [PostMessage (EditorSubmit \<lparr>thumbnail = thumb, plyFile = ply_bytes pd,
                                   filename = ply_filename pd, cameraPose = pose\<rparr>),
                   ConsoleLog ''[IframeIntegration] Successfully sent export to parent'']" ..
  then have pd: "fst (exportPly H w2) = Some pd"
    and d: "d = [PostMessage (EditorSubmit \<lparr>thumbnail = thumb, plyFile = ply_bytes pd,
                                   filename = ply_filename pd, cameraPose = pose\<rparr>),
                 ConsoleLog ''[IframeIntegration] Successfully sent export to parent'']"
    by (rule conjunct1, rule conjunct2)
  from exportPly_filename [OF pd] obtain first others where
    f: "fst (invoke_scene_splats H (host_state w2)) = Returns (Some (first # others))"
       "ply_filename pd = derive_filename (splat_filename first)"
    by blast
  let ?b = "\<lparr>thumbnail = thumb, plyFile = ply_bytes pd,
                filename = ply_filename pd, cameraPose = pose\<rparr>"
  have dflt: "splat_filename first = None \<or> splat_filename first = Some [] \<longrightarrow>
                derive_filename (splat_filename first) = ''edited.compressed.ply''"
    by (auto simp: derive_filename_def normalize_extension_def starts_with_def)
  from ph cd(2) have "3 \<notin> set (phases (evs @ c))" by (auto simp: phases_append)
  then have "posted (evs @ c) = []" by (rule posted_phase)
  with d have post: "posted (evs @ c @ d) = [EditorSubmit ?b]"
    using posted_append [of "evs @ c" d] by simp
  from g cd(1) have gr: "grows w (evs @ c @ d) w'" by (rule grows_append)
  have "world_at_exportPly H options w = Some w2
           \<and> fst (invoke_scene_splats H (host_state w2)) = Returns (Some (first # others))
           \<and> grows w (evs @ c @ d) (snd (performExport H options w))
           \<and> posted (evs @ c @ d) = [EditorSubmit ?b]
           \<and> filename ?b = derive_filename (splat_filename first)
           \<and> (splat_filename first = None \<or> splat_filename first = Some [] \<longrightarrow>
                filename ?b = ''edited.compressed.ply'')"
    using at f gr post p dflt by simp
  then show ?thesis by blast
qed

theorem default_filename_posted_witness:
  "fst (performExport scene_host \<lparr>includeThumbnail = None, includeCameraPose = None\<rparr>
          (scene_world [Splat None [7], Splat (Some ''model.ply'') [1, 2, 3]])) = Returns ()
   \<and> (\<exists>w2 others evs b.
         world_at_exportPly scene_host \<lparr>includeThumbnail = None, includeCameraPose = None\<rparr>
           (scene_world [Splat None [7], Splat (Some ''model.ply'') [1, 2, 3]]) = Some w2
         \<and> fst (invoke_scene_splats scene_host (host_state w2))
             = Returns (Some (Splat None [7] # others))
         \<and> grows (scene_world [Splat None [7], Splat (Some ''model.ply'') [1, 2, 3]]) evs
             (snd (performExport scene_host
                     \<lparr>includeThumbnail = None, includeCameraPose = None\<rparr>
                     (scene_world [Splat None [7], Splat (Some ''model.ply'') [1, 2, 3]])))
         \<and> posted evs = [EditorSubmit b] \<and> filename b = ''edited.compressed.ply'')"
proof -
  let ?opts = "\<lparr>includeThumbnail = None, includeCameraPose = None\<rparr>"
  let ?w = "scene_world [Splat None [7], Splat (Some ''model.ply'') [1, 2, 3]]"
  have ok: "fst (performExport scene_host ?opts ?w) = Returns ()"
    by (simp add: run_defs scene_host_def scene_world_def)
  from default_filename_posted [OF ok] obtain w2 first others evs b where
    r: "world_at_exportPly scene_host ?opts ?w = Some w2"
      "fst (invoke_scene_splats scene_host (host_state w2)) = Returns (Some (first # others))"
      "grows ?w evs (snd (performExport scene_host ?opts ?w))"
      "posted evs = [EditorSubmit b]"
      "splat_filename first = None \<or> splat_filename first = Some [] \<longrightarrow>
         filename b = ''edited.compressed.ply''"
    by blast
  have at: "map_option host_state (world_at_exportPly scene_host ?opts ?w)
              = Some [Splat None [7], Splat (Some ''model.ply'') [1, 2, 3]]"
    by (simp add: world_at_exportPly_def poseStep_def thumbnailStep_def getCameraPose_def
        captureThumbnail_def canvasPromise_def call_host_def emit_def scene_host_def
        scene_world_def)
  with r(1) have "host_state w2 = [Splat None [7], Splat (Some ''model.ply'') [1, 2, 3]]"
    by simp
  with r(2) have first: "first = Splat None [7]" by (simp add: scene_host_def)
  with r(5) have "filename b = ''edited.compressed.ply''" by simp
  with ok r(1-4) first show ?thesis by blast
qed

subsection \<open>The import loop\<close>

lemma import_loop_grows:
  "\<exists>evs. grows w evs (import_loop H files w)
     \<and> invoked evs = map (\<lambda>fileData. Import [fileData]) files
     \<and> posted evs = map (\<lambda>err. ImportError (error_text err))
                        (failures (import_outcomes H files (host_state w)))"
proof (induction files arbitrary: w)
  case Nil
  have "grows w [] (import_loop H [] w)" by (simp add: grows_def)
  then show ?case by (intro exI [of _ "[]"]) simp
next
  case (Cons fileData rest)
  obtain r h' where h: "invoke_import H [fileData] (host_state w) = (r, h')" by force
  let ?w1 = "emit (Invoke (Import [fileData])) (w\<lparr>host_state := h'\<rparr>)"
  have c: "call_host (Invoke (Import [fileData])) (invoke_import H [fileData]) w = (r, ?w1)"
    using h by (simp add: call_host_def)
  show ?case
  proof (cases r)
    case (Returns u)
    let ?w2 = "console_log ''[IframeIntegration] Successfully imported:'' ?w1"
    from Cons.IH [of ?w2] obtain evs where
      evs: "grows ?w2 evs (import_loop H rest ?w2)"
        "invoked evs = map (\<lambda>fileData. Import [fileData]) rest"
        "posted evs = map (\<lambda>err. ImportError (error_text err))
                        (failures (import_outcomes H rest (host_state ?w2)))"
      by blast
    have hs: "host_state ?w2 = h'" by (simp add: console_log_def emit_def)
    let ?evs = "[Invoke (Import [fileData]),
                 ConsoleLog ''[IframeIntegration] Successfully imported:''] @ evs"
    have loop: "import_loop H (fileData # rest) w = import_loop H rest ?w2"
      using c Returns by simp
    have "grows w ?evs (import_loop H (fileData # rest) w)"
      using evs(1) unfolding loop by (simp add: grows_def console_log_def emit_def)
    moreover have "invoked ?evs = map (\<lambda>fileData. Import [fileData]) (fileData # rest)"
      using evs(2) by simp
    moreover have "posted ?evs = map (\<lambda>err. ImportError (error_text err))
         (failures (import_outcomes H (fileData # rest) (host_state w)))"
      using evs(3) hs h Returns by simp
    ultimately show ?thesis by blast
  next
    case (Throws err)
    let ?w2 = "postMessage (ImportError (error_text err))
                 (console_error ''[IframeIntegration] Failed to import:'' ?w1)"
    from Cons.IH [of ?w2] obtain evs where
      evs: "grows ?w2 evs (import_loop H rest ?w2)"
        "invoked evs = map (\<lambda>fileData. Import [fileData]) rest"
        "posted evs = map (\<lambda>err. ImportError (error_text err))
                        (failures (import_outcomes H rest (host_state ?w2)))"
      by blast
    have hs: "host_state ?w2 = h'"
      by (simp add: console_error_def postMessage_def emit_def)
    let ?evs = "[Invoke (Import [fileData]),
                 ConsoleError ''[IframeIntegration] Failed to import:'',
                 PostMessage (ImportError (error_text err))] @ evs"
    have loop: "import_loop H (fileData # rest) w = import_loop H rest ?w2"
      using c Throws by simp
    have "grows w ?evs (import_loop H (fileData # rest) w)"
      using evs(1) unfolding loop
      by (simp add: grows_def console_error_def postMessage_def emit_def)
    moreover have "invoked ?evs = map (\<lambda>fileData. Import [fileData]) (fileData # rest)"
      using evs(2) by simp
    moreover have "posted ?evs = map (\<lambda>err. ImportError (error_text err))
         (failures (import_outcomes H (fileData # rest) (host_state w)))"
      using evs(3) hs h Throws by simp
    ultimately show ?thesis by blast
  qed
qed

lemma import_message_grows:
  assumes "data_type e = Some ''supersplat:import''" and "data_files e = FilesArray files"
  shows "\<exists>evs. grows w evs (message_listener H e w)
     \<and> invoked evs = map (\<lambda>fileData. Import [fileData]) files
     \<and> posted evs = map (\<lambda>err. ImportError (error_text err))
                        (failures (import_outcomes H files (host_state w)))"
proof -
  let ?w0 = "console_log ''[IframeIntegration] Import message received:'' w"
  have l: "message_listener H e w = import_loop H files ?w0"
    using assms by (cases files) (simp_all add: message_listener_def)
  from import_loop_grows [of ?w0 H files] obtain evs where
    evs: "grows ?w0 evs (import_loop H files ?w0)"
      "invoked evs = map (\<lambda>fileData. Import [fileData]) files"
      "posted evs = map (\<lambda>err. ImportError (error_text err))
                        (failures (import_outcomes H files (host_state ?w0)))"
    by blast
  have hs: "host_state ?w0 = host_state w" by (simp add: console_log_def emit_def)
  let ?evs = "ConsoleLog ''[IframeIntegration] Import message received:'' # evs"
  have "grows w ?evs (message_listener H e w)"
    using evs(1) unfolding l by (simp add: grows_def console_log_def emit_def)
  moreover have "invoked ?evs = map (\<lambda>fileData. Import [fileData]) files"
    using evs(2) by simp
  moreover have "posted ?evs = map (\<lambda>err. ImportError (error_text err))
                        (failures (import_outcomes H files (host_state w)))"
    using evs(3) hs by simp
  ultimately show ?thesis by blast
qed

text \<open>
  Claim C4. For an import message with a list of descriptors, every descriptor is fed to
  the import pipeline, in order and each in a list of its own, whatever the pipeline
  answered for the earlier ones; and the messages posted are exactly one
  \<^verbatim>\<open>supersplat:import:error\<close> per failed import, with that failure's text. In
  particular, with three descriptors of which the second fails and the others succeed,
  all three are fed to the pipeline and exactly one message is posted, the error of the
  second.
\<close>

theorem import_failure_isolated:
  assumes "data_type e = Some ''supersplat:import''"
  shows "(data_files e = FilesArray files \<longrightarrow>
          (\<exists>evs. grows w evs (message_listener H e w)
             \<and> invoked evs = map (\<lambda>fileData. Import [fileData]) files
             \<and> posted evs = map (\<lambda>err. ImportError (error_text err))
                        (failures (import_outcomes H files (host_state w)))))
       \<and> (data_files e = FilesArray [first, second, third] \<longrightarrow>
            import_outcomes H [first, second, third] (host_state w)
              = [Returns (), Throws err, Returns ()] \<longrightarrow>
          (\<exists>evs. grows w evs (message_listener H e w)
             \<and> invoked evs = [Import [first], Import [second], Import [third]]
             \<and> posted evs = [ImportError (error_text err)]))"
proof (intro conjI impI)
  assume "data_files e = FilesArray files"
  with assms show "\<exists>evs. grows w evs (message_listener H e w)
             \<and> invoked evs = map (\<lambda>fileData. Import [fileData]) files
             \<and> posted evs = map (\<lambda>err. ImportError (error_text err))
                        (failures (import_outcomes H files (host_state w)))"
    by (rule import_message_grows)
next
  assume f: "data_files e = FilesArray [first, second, third]"
    and o: "import_outcomes H [first, second, third] (host_state w)
              = [Returns (), Throws err, Returns ()]"
  from import_message_grows [OF assms f, of w H] obtain evs where
    "grows w evs (message_listener H e w)"
    "invoked evs = map (\<lambda>fileData. Import [fileData]) [first, second, third]"
    "posted evs = map (\<lambda>err. ImportError (error_text err))
                        (failures (import_outcomes H [first, second, third] (host_state w)))"
    by blast
  then have "grows w evs (message_listener H e w)
             \<and> invoked evs = [Import [first], Import [second], Import [third]]
             \<and> posted evs = [ImportError (error_text err)]"
    unfolding o by simp
  then show "\<exists>evs. grows w evs (message_listener H e w)
             \<and> invoked evs = [Import [first], Import [second], Import [third]]
             \<and> posted evs = [ImportError (error_text err)]" ..
qed

theorem import_failure_isolated_witness:
  "data_type \<lparr>data_type = Some ''supersplat:import'', data_files = FilesArray sample_files\<rparr>
     = Some ''supersplat:import''
   \<and> import_outcomes sample_host sample_files (host_state sample_world)
       = [Returns (), Throws (new_Error ''bad file''), Returns ()]
   \<and> (\<exists>evs. grows sample_world evs
          (message_listener sample_host
             \<lparr>data_type = Some ''supersplat:import'', data_files = FilesArray sample_files\<rparr>
             sample_world)
        \<and> invoked evs = map (\<lambda>fileData. Import [fileData]) sample_files
        \<and> posted evs = [ImportError ''bad file''])"
proof -
  let ?e = "\<lparr>data_type = Some ''supersplat:import'', data_files = FilesArray sample_files\<rparr>"
  have t: "data_type ?e = Some ''supersplat:import''" by simp
  have o: "import_outcomes sample_host sample_files (host_state sample_world)
       = [Returns (), Throws (new_Error ''bad file''), Returns ()]"
    by (simp add: sample_host_def sample_world_def sample_files_def)
  have f: "data_files ?e
       = FilesArray [FileDescriptor (Some ''a.ply'') [1], FileDescriptor (Some ''b.ply'') [2],
                     FileDescriptor (Some ''c.ply'') [3]]"
    by (simp add: sample_files_def)
  have o': "import_outcomes sample_host
        [FileDescriptor (Some ''a.ply'') [1], FileDescriptor (Some ''b.ply'') [2],
         FileDescriptor (Some ''c.ply'') [3]] (host_state sample_world)
       = [Returns (), Throws (new_Error ''bad file''), Returns ()]"
    using o by (simp add: sample_files_def)
  from import_failure_isolated [OF t, of sample_files sample_world sample_host
      "FileDescriptor (Some ''a.ply'') [1]" "FileDescriptor (Some ''b.ply'') [2]"
      "FileDescriptor (Some ''c.ply'') [3]" "new_Error ''bad file''"] f o'
  have "\<exists>evs. grows sample_world evs (message_listener sample_host ?e sample_world)
        \<and> invoked evs = [Import [FileDescriptor (Some ''a.ply'') [1]],
                          Import [FileDescriptor (Some ''b.ply'') [2]],
                          Import [FileDescriptor (Some ''c.ply'') [3]]]
        \<and> posted evs = [ImportError (error_text (new_Error ''bad file''))]"
    by blast
  then have "\<exists>evs. grows sample_world evs (message_listener sample_host ?e sample_world)
        \<and> invoked evs = map (\<lambda>fileData. Import [fileData]) sample_files
        \<and> posted evs = [ImportError ''bad file'']"
    by (simp add: sample_files_def error_text_def new_Error_def)
  with t o show ?thesis by blast
qed

subsection \<open>The Submit button\<close>

lemma submit_click_entry_buttons:
  "submit (submit_click_entry w) = (submit w)\<lparr>textContent := ''Processing...'', disabled := True\<rparr>
   \<and> cancel (submit_click_entry w) = (cancel w)\<lparr>disabled := True\<rparr>
   \<and> trace (submit_click_entry w)
       = trace w @ [ConsoleLog
           ''[IframeIntegration] Submit clicked, capturing thumbnail and exporting PLY'']"
  by (simp add: submit_click_entry_def console_log_def emit_def)

lemma performExport_frame:
  assumes "performExport H options w = (r, w')"
  shows "\<exists>evs. grows w evs w' \<and> (case r of Throws err \<Rightarrow> posted evs = [] | Returns u \<Rightarrow> True)"
proof -
  from performExport_grows [OF assms] obtain a b c d w2 where
    g: "grows w (a @ b) w2" "grows w2 (c @ d) w'"
    and ph: "set (phases a) \<subseteq> {0}" "set (phases b) \<subseteq> {1}" "set (phases c) \<subseteq> {2}"
    and last: "case r of Throws err \<Rightarrow> d = [] | Returns u \<Rightarrow> True"
    by (cases r) fastforce+
  from ph have "posted ((a @ b) @ c) = []"
    by (intro phases_no_post) (auto simp: phases_append)
  with last have "case r of Throws err \<Rightarrow> posted ((a @ b) @ c @ d) = [] | Returns u \<Rightarrow> True"
    by (cases r) (simp_all add: posted_append)
  moreover from g have "grows w ((a @ b) @ c @ d) w'" by (rule grows_append)
  ultimately show ?thesis by blast
qed

text \<open>
  Claim C1, as the code has it. On entry the handler disables both buttons and labels
  Submit \<^verbatim>\<open>Processing...\<close>; the export runs in that state. When the export throws, the
  handler posts one \<^verbatim>\<open>splat-editor-error\<close> message and restores the idle state: both
  buttons enabled, Submit labelled \<^verbatim>\<open>Submit\<close>. When the export returns, the handler does
  nothing more: both buttons stay disabled and the label stays \<^verbatim>\<open>Processing...\<close>. The
  restoring assignments are in the \<^verbatim>\<open>catch\<close> block only (lines 229-231).
\<close>

theorem submit_click_buttons:
  "disabled (submit (submit_click_entry w)) \<and> disabled (cancel (submit_click_entry w))
   \<and> textContent (submit (submit_click_entry w)) = ''Processing...''
   \<and> (case fst (performExport H \<lparr>includeThumbnail = Some True, includeCameraPose = Some True\<rparr>
                   (submit_click_entry w)) of
         Throws err \<Rightarrow>
           submit (submit_click H w) = (submit w)\<lparr>textContent := ''Submit'', disabled := False\<rparr>
           \<and> cancel (submit_click H w) = (cancel w)\<lparr>disabled := False\<rparr>
           \<and> (\<exists>evs. trace (submit_click H w) = trace w @ evs
                 \<and> posted evs = [EditorError (error_text err)])
       | Returns u \<Rightarrow>
           submit (submit_click H w)
             = (submit w)\<lparr>textContent := ''Processing...'', disabled := True\<rparr>
           \<and> cancel (submit_click H w) = (cancel w)\<lparr>disabled := True\<rparr>)"
proof -
  let ?opts = "\<lparr>includeThumbnail = Some True, includeCameraPose = Some True\<rparr>"
  let ?w0 = "submit_click_entry w"
  note e = submit_click_entry_buttons [of w]
  obtain r w1 where p: "performExport H ?opts ?w0 = (r, w1)" by force
  from performExport_frame [OF p] obtain evs where
    g: "grows ?w0 evs w1"
    and np: "case r of Throws err \<Rightarrow> posted evs = [] | Returns u \<Rightarrow> True"
    by blast
  have entry: "disabled (submit ?w0) \<and> disabled (cancel ?w0)
     \<and> textContent (submit ?w0) = ''Processing...''"
    using e by simp
  show ?thesis
  proof (cases r)
    case (Returns u)
    with p have "submit_click H w = w1" by (simp add: submit_click_def)
    with g e p Returns entry show ?thesis by (simp add: grows_def)
  next
    case (Throws err)
    with p have w': "submit_click H w = submit_click_catch err w1"
      by (simp add: submit_click_def)
    let ?evs = "[ConsoleLog
           ''[IframeIntegration] Submit clicked, capturing thumbnail and exporting PLY'']
         @ evs @ [ConsoleError ''[IframeIntegration] Error during submit:'',
                  PostMessage (EditorError (error_text err))]"
    from np Throws have "posted evs = []" by simp
    then have post: "posted ?evs = [EditorError (error_text err)]"
      by (simp add: posted_append)
    have tr: "trace (submit_click H w) = trace w @ ?evs"
      using g e unfolding w'
      by (simp add: submit_click_catch_def grows_def console_error_def postMessage_def emit_def)
    have b: "submit (submit_click H w)
               = (submit w)\<lparr>textContent := ''Submit'', disabled := False\<rparr>
             \<and> cancel (submit_click H w) = (cancel w)\<lparr>disabled := False\<rparr>"
      using g e unfolding w'
      by (simp add: submit_click_catch_def grows_def console_error_def postMessage_def emit_def)
    from tr post have "\<exists>evs. trace (submit_click H w) = trace w @ evs
                 \<and> posted evs = [EditorError (error_text err)]"
      by blast
    with b p Throws entry show ?thesis by simp
  qed
qed

theorem submit_click_buttons_witness:
  "fst (performExport empty_scene_host \<lparr>includeThumbnail = Some True, includeCameraPose = Some True\<rparr>
          (submit_click_entry sample_world))
     = Throws (new_Error ''Failed to export PLY'')
   \<and> submit (submit_click empty_scene_host sample_world) = submit sample_world
   \<and> cancel (submit_click empty_scene_host sample_world) = cancel sample_world
   \<and> (\<exists>evs. trace (submit_click empty_scene_host sample_world) = trace sample_world @ evs
         \<and> posted evs = [EditorError ''Failed to export PLY''])"
proof -
  have f: "fst (performExport empty_scene_host
                  \<lparr>includeThumbnail = Some True, includeCameraPose = Some True\<rparr>
                  (submit_click_entry sample_world))
     = Throws (new_Error ''Failed to export PLY'')"
    by (simp add: run_defs empty_scene_host_def sample_host_def sample_world_def
        submit_click_entry_def)
  have i: "(submit sample_world)\<lparr>textContent := ''Submit'', disabled := False\<rparr>
             = submit sample_world
           \<and> (cancel sample_world)\<lparr>disabled := False\<rparr> = cancel sample_world"
    by (simp add: sample_world_def)
  have t: "error_text (new_Error ''Failed to export PLY'') = ''Failed to export PLY''"
    by (simp add: error_text_def new_Error_def)
  from submit_click_buttons [of sample_world empty_scene_host] f i t show ?thesis
    by simp
qed

text \<open>
  Claim C1, as it is stated, fails where the export succeeds: with the sample host the
  export returns, and after the handler the buttons are not in the enabled idle state.
\<close>

theorem submit_click_success_counterexample:
  "fst (performExport sample_host \<lparr>includeThumbnail = Some True, includeCameraPose = Some True\<rparr>
          (submit_click_entry sample_world)) = Returns ()
   \<and> \<not> (\<not> disabled (submit (submit_click sample_host sample_world))
         \<and> \<not> disabled (cancel (submit_click sample_host sample_world))
         \<and> textContent (submit (submit_click sample_host sample_world)) = ''Submit'')"
  by (simp add: submit_click_def run_defs sample_host_def sample_world_def
      submit_click_entry_def)

end
